theory Spec2Isabelle
  imports Main
begin

section \<open>Values, exceptions and entities\<close>

text \<open>
  A Python \<open>str\<close> is a sequence of code points, natural numbers up to \<open>0x10FFFF\<close>;
  \<open>len\<close> counts them. The code points \<open>0xD800\<close> to \<open>0xDFFF\<close> are the
  surrogates: a \<open>str\<close> may hold one, and such a \<open>str\<close> has no UTF-8 encoding.
  \<open>str\<close> turns a literal of characters below 256 into this form.
\<close>

type_synonym pystr = "nat list"

definition str :: "string \<Rightarrow> pystr" where
  "str s = map of_char s"

text \<open>
  The Python values that reach the validated fields: \<open>None\<close>, an \<open>int\<close> or a \<open>str\<close>.
  \<open>isinstance(v, str)\<close> holds for \<open>PyStr\<close> only.
\<close>

datatype pyval = PyNone | PyInt int | PyStr pystr

text \<open>
  The exceptions of the three model classes and of the storage engine.
  \<open>ValueError\<close> is the validation error, \<open>TypeError\<close> the type mismatch of
  \<open>add_article\<close>; the others come from \<open>cursor.execute\<close>: \<open>UnicodeEncodeError\<close> and
  \<open>OverflowError\<close> when a parameter cannot be bound, \<open>IntegrityError\<close> when a constraint
  fails, \<open>OperationalError\<close> when a table has no id left.
\<close>

datatype exn =
  ValueError | TypeError | IntegrityError | OverflowError | UnicodeEncodeError | OperationalError

record author =
  author_name :: pystr
  author_id :: "int option"

record magazine =
  magazine_name :: pystr
  magazine_category :: pystr
  magazine_id :: "int option"

record article =
  article_title :: pystr
  article_author_id :: "int option"
  article_magazine_id :: "int option"
  article_id :: "int option"

subsection \<open>Construction (\<open>__init__\<close>) of the three classes\<close>

text \<open>\<open>Author.__init__\<close>: \<open>isinstance(name, str) and 0 < len(name) <= 255\<close>, else ValueError.\<close>

fun Author_init :: "pyval \<Rightarrow> int option \<Rightarrow> exn + author" where
  "Author_init (PyStr name) i =
     (if 0 < length name \<and> length name \<le> 255
      then Inr \<lparr>author_name = name, author_id = i\<rparr>
      else Inl ValueError)"
| "Author_init _ i = Inl ValueError"

text \<open>
  \<open>Magazine.__init__\<close> with \<open>_validate_name_category\<close>: the name is checked first
  (\<open>2 <= len <= 16\<close>), then the category (\<open>0 < len <= 20\<close>).
\<close>

fun Magazine_init :: "pyval \<Rightarrow> pyval \<Rightarrow> int option \<Rightarrow> exn + magazine" where
  "Magazine_init (PyStr name) (PyStr category) i =
     (if \<not> (2 \<le> length name \<and> length name \<le> 16) then Inl ValueError
      else if \<not> (0 < length category \<and> length category \<le> 20) then Inl ValueError
      else Inr \<lparr>magazine_name = name, magazine_category = category, magazine_id = i\<rparr>)"
| "Magazine_init _ _ i = Inl ValueError"

text \<open>\<open>Article.__init__\<close> with \<open>_validate_title\<close>: only the title is checked.\<close>

fun Article_init :: "pyval \<Rightarrow> int option \<Rightarrow> int option \<Rightarrow> int option \<Rightarrow> exn + article" where
  "Article_init (PyStr title) aid mid i =
     (if 0 < length title \<and> length title \<le> 50
      then Inr \<lparr>article_title = title, article_author_id = aid,
                article_magazine_id = mid, article_id = i\<rparr>
      else Inl ValueError)"
| "Article_init _ aid mid i = Inl ValueError"

section \<open>The relational store\<close>

text \<open>
  The three tables of the schema (section 6 of the specification, and the
  \<open>CREATE TABLE\<close> statements of the test fixtures): every column is \<open>NOT NULL\<close>, \<open>id\<close> is
  the integer primary key, and the text columns have TEXT affinity, so a stored name,
  category or title is a string. A table is the list of its rows in storage order.
\<close>

record author_row =
  a_id :: int
  a_name :: pystr

record magazine_row =
  m_id :: int
  m_name :: pystr
  m_category :: pystr

record article_row =
  r_id :: int
  r_title :: pystr
  r_author_id :: int
  r_magazine_id :: int

text \<open>
  The tables of the test fixtures declare their key \<open>AUTOINCREMENT\<close>, the tables of the
  specification do not. The sequence of a table is \<open>Some n\<close> for an \<open>AUTOINCREMENT\<close>
  table whose largest id so far was \<open>n\<close> (0 when it never held a row), and \<open>None\<close> for
  a table without \<open>AUTOINCREMENT\<close>.
\<close>

record db =
  authors :: "author_row list"
  magazines :: "magazine_row list"
  articles :: "article_row list"
  authors_seq :: "int option"
  magazines_seq :: "int option"
  articles_seq :: "int option"

text \<open>
  A connection of \<open>sqlite3\<close>: the committed content of the file, the content as the open
  transaction sees it, and the connection's \<open>foreign_keys\<close> pragma. SQLite enforces
  \<open>REFERENCES ... ON DELETE CASCADE\<close> only on a connection that has switched the pragma on.
\<close>

record connection =
  committed :: db
  pending :: db
  foreign_keys :: bool

text \<open>
  \<open>get_connection\<close> is \<open>sqlite3.connect(DATABASE_NAME)\<close> followed by setting
  \<open>row_factory\<close>; it executes no \<open>PRAGMA\<close>, so the pragma keeps SQLite's default, off.
\<close>

definition get_connection :: "db \<Rightarrow> connection" where
  "get_connection d = \<lparr>committed = d, pending = d, foreign_keys = False\<rparr>"

definition commit :: "connection \<Rightarrow> connection" where
  "commit conn = conn\<lparr>committed := pending conn\<rparr>"

definition rollback :: "connection \<Rightarrow> connection" where
  "rollback conn = conn\<lparr>pending := committed conn\<rparr>"

text \<open>Closing a connection drops what was not committed; the file keeps the rest.\<close>

definition close_connection :: "connection \<Rightarrow> db" where
  "close_connection conn = committed conn"

subsection \<open>Binding a parameter\<close>

text \<open>An integer SQLite can hold: 64 bits, signed.\<close>

definition in_int64 :: "int \<Rightarrow> bool" where
  "in_int64 n = (- (2 ^ 63) \<le> n \<and> n < 2 ^ 63)"

text \<open>A \<open>str\<close> that has a UTF-8 encoding: code points only, none of them a surrogate.\<close>

definition utf8_ok :: "pystr \<Rightarrow> bool" where
  "utf8_ok s = list_all (\<lambda>c. c < 0xD800 \<or> (0xDFFF < c \<and> c \<le> 0x10FFFF)) s"

fun nat_digits :: "nat \<Rightarrow> string" where
  "nat_digits n =
     (if n < 10 then [char_of (48 + n)]
      else nat_digits (n div 10) @ [char_of (48 + n mod 10)])"

declare nat_digits.simps [simp del]

definition int_text :: "int \<Rightarrow> string" where
  "int_text n = (if n < 0 then CHR ''-'' # nat_digits (nat (- n)) else nat_digits (nat n))"

text \<open>
  What \<open>cursor.execute\<close> does with a parameter bound to a TEXT column: \<open>None\<close> is NULL
  (the result \<open>None\<close> here); a \<open>str\<close> is encoded as UTF-8, which raises
  UnicodeEncodeError when it holds a surrogate, and is stored as it is otherwise; an
  \<open>int\<close> that fits 64 bits is stored as its decimal text, and a larger \<open>int\<close> raises
  OverflowError.
\<close>

fun bind_text :: "pyval \<Rightarrow> exn + pystr option" where
  "bind_text PyNone = Inr None"
| "bind_text (PyStr s) = (if utf8_ok s then Inr (Some s) else Inl UnicodeEncodeError)"
| "bind_text (PyInt n) =
     (if in_int64 n then Inr (Some (str (int_text n))) else Inl OverflowError)"

text \<open>
  A parameter that is \<open>None\<close> or an \<open>int\<close>, bound to an integer column or compared
  with one: an \<open>int\<close> outside 64 bits raises OverflowError.
\<close>

fun bind_int :: "int option \<Rightarrow> exn + int option" where
  "bind_int None = Inr None"
| "bind_int (Some n) = (if in_int64 n then Inr (Some n) else Inl OverflowError)"

subsection \<open>Row ids\<close>

fun max_rowid :: "int list \<Rightarrow> int" where
  "max_rowid [] = 0"
| "max_rowid (x # xs) = (if xs = [] then x else max x (max_rowid xs))"

text \<open>
  A table has an id left for a new row when its largest id is below the largest 64-bit
  integer and, for an \<open>AUTOINCREMENT\<close> table, so is the largest id it ever held.
\<close>

definition room :: "int option \<Rightarrow> int list \<Rightarrow> bool" where
  "room seq ids =
     ((ids = [] \<or> max_rowid ids < 2 ^ 63 - 1) \<and>
      (case seq of None \<Rightarrow> True | Some n \<Rightarrow> n < 2 ^ 63 - 1))"

text \<open>
  The id of an inserted row (\<open>cursor.lastrowid\<close>): 1 in an empty table, one more than
  the largest id otherwise, and in an \<open>AUTOINCREMENT\<close> table at least one more than the
  largest id the table ever held. Without room an \<open>AUTOINCREMENT\<close> table fails with
  \<open>SQLITE_FULL\<close>, an OperationalError. A table without \<open>AUTOINCREMENT\<close> then tries ids
  at random before it fails in the same way; that search is not modelled, and the
  statements below about an insertion are for tables with room.
\<close>

definition new_rowid :: "int option \<Rightarrow> int list \<Rightarrow> exn + int" where
  "new_rowid seq ids =
     (if room seq ids
      then
        (let v = (if ids = [] then 1 else max_rowid ids + 1)
         in Inr (case seq of None \<Rightarrow> v | Some n \<Rightarrow> max v (n + 1)))
      else Inl OperationalError)"

text \<open>The sequence after an insertion with id \<open>i\<close>.\<close>

definition next_seq :: "int option \<Rightarrow> int \<Rightarrow> int option" where
  "next_seq seq i = (case seq of None \<Rightarrow> None | Some n \<Rightarrow> Some i)"

subsection \<open>The statements the models execute\<close>

text \<open>
  A statement binds its parameters in their order, and an exception of the binding comes
  before anything is executed. An \<open>INSERT\<close> then takes the new id, checks \<open>NOT NULL\<close>
  and \<open>UNIQUE\<close>, and appends the row.
\<close>

text \<open>\<open>INSERT INTO authors (name) VALUES (?)\<close>: name is \<open>NOT NULL UNIQUE\<close>.\<close>

definition insert_author :: "connection \<Rightarrow> pyval \<Rightarrow> exn + (connection \<times> int)" where
  "insert_author conn name =
     (case bind_text name of
        Inl e \<Rightarrow> Inl e
      | Inr n \<Rightarrow>
          (let d = pending conn; rows = authors d in
           case new_rowid (authors_seq d) (map a_id rows) of
             Inl e \<Rightarrow> Inl e
           | Inr i \<Rightarrow>
               (case n of
                  None \<Rightarrow> Inl IntegrityError
                | Some s \<Rightarrow>
                    if s \<in> set (map a_name rows) then Inl IntegrityError
                    else Inr (conn\<lparr>pending := d
                                \<lparr>authors := rows @ [\<lparr>a_id = i, a_name = s\<rparr>],
                                 authors_seq := next_seq (authors_seq d) i\<rparr>\<rparr>, i))))"

text \<open>\<open>UPDATE authors SET name = ? WHERE id = ?\<close>.\<close>

definition update_author :: "connection \<Rightarrow> pystr \<Rightarrow> int \<Rightarrow> exn + connection" where
  "update_author conn name i =
     (let rows = authors (pending conn) in
      if \<not> utf8_ok name then Inl UnicodeEncodeError
      else if \<not> in_int64 i then Inl OverflowError
      else if list_ex (\<lambda>r. a_id r = i) rows \<and> list_ex (\<lambda>r. a_id r \<noteq> i \<and> a_name r = name) rows
      then Inl IntegrityError
      else Inr (conn\<lparr>pending := (pending conn)
                  \<lparr>authors := map (\<lambda>r. if a_id r = i then r\<lparr>a_name := name\<rparr> else r) rows\<rparr>\<rparr>))"

text \<open>
  \<open>DELETE FROM authors WHERE id = ?\<close>. The articles of the author go with it only when
  the connection enforces foreign keys.
\<close>

definition delete_author :: "connection \<Rightarrow> int \<Rightarrow> exn + connection" where
  "delete_author conn i =
     (if \<not> in_int64 i then Inl OverflowError
      else
        (let d = pending conn;
             d1 = d\<lparr>authors := filter (\<lambda>r. a_id r \<noteq> i) (authors d)\<rparr>
         in Inr (conn\<lparr>pending :=
              (if foreign_keys conn
               then d1\<lparr>articles := filter (\<lambda>r. r_author_id r \<noteq> i) (articles d)\<rparr>
               else d1)\<rparr>)))"

text \<open>\<open>INSERT INTO magazines (name, category) VALUES (?, ?)\<close>.\<close>

definition insert_magazine :: "connection \<Rightarrow> pyval \<Rightarrow> pyval \<Rightarrow> exn + (connection \<times> int)" where
  "insert_magazine conn name category =
     (case bind_text name of
        Inl e \<Rightarrow> Inl e
      | Inr n \<Rightarrow>
         (case bind_text category of
            Inl e \<Rightarrow> Inl e
          | Inr c \<Rightarrow>
             (let d = pending conn; rows = magazines d in
              case new_rowid (magazines_seq d) (map m_id rows) of
                Inl e \<Rightarrow> Inl e
              | Inr i \<Rightarrow>
                  (case (n, c) of
                     (Some s, Some t) \<Rightarrow>
                       if s \<in> set (map m_name rows) then Inl IntegrityError
                       else Inr (conn\<lparr>pending := d
                                   \<lparr>magazines := rows @ [\<lparr>m_id = i, m_name = s, m_category = t\<rparr>],
                                    magazines_seq := next_seq (magazines_seq d) i\<rparr>\<rparr>, i)
                   | _ \<Rightarrow> Inl IntegrityError))))"

text \<open>\<open>UPDATE magazines SET name = ?, category = ? WHERE id = ?\<close>.\<close>

definition update_magazine :: "connection \<Rightarrow> pystr \<Rightarrow> pystr \<Rightarrow> int \<Rightarrow> exn + connection" where
  "update_magazine conn name category i =
     (let rows = magazines (pending conn) in
      if \<not> utf8_ok name then Inl UnicodeEncodeError
      else if \<not> utf8_ok category then Inl UnicodeEncodeError
      else if \<not> in_int64 i then Inl OverflowError
      else if list_ex (\<lambda>r. m_id r = i) rows \<and> list_ex (\<lambda>r. m_id r \<noteq> i \<and> m_name r = name) rows
      then Inl IntegrityError
      else Inr (conn\<lparr>pending := (pending conn)
                  \<lparr>magazines := map (\<lambda>r. if m_id r = i
                                         then r\<lparr>m_name := name, m_category := category\<rparr>
                                         else r) rows\<rparr>\<rparr>))"

text \<open>\<open>DELETE FROM magazines WHERE id = ?\<close>.\<close>

definition delete_magazine :: "connection \<Rightarrow> int \<Rightarrow> exn + connection" where
  "delete_magazine conn i =
     (if \<not> in_int64 i then Inl OverflowError
      else
        (let d = pending conn;
             d1 = d\<lparr>magazines := filter (\<lambda>r. m_id r \<noteq> i) (magazines d)\<rparr>
         in Inr (conn\<lparr>pending :=
              (if foreign_keys conn
               then d1\<lparr>articles := filter (\<lambda>r. r_magazine_id r \<noteq> i) (articles d)\<rparr>
               else d1)\<rparr>)))"

text \<open>
  The foreign keys of an article row resolve: checked by \<open>INSERT\<close> and \<open>UPDATE\<close> on a
  connection that enforces foreign keys.
\<close>

definition references_ok :: "db \<Rightarrow> int \<Rightarrow> int \<Rightarrow> bool" where
  "references_ok d aid mid =
     (list_ex (\<lambda>r. a_id r = aid) (authors d) \<and> list_ex (\<lambda>r. m_id r = mid) (magazines d))"

text \<open>\<open>INSERT INTO articles (title, author_id, magazine_id) VALUES (?, ?, ?)\<close>.\<close>

definition insert_article ::
  "connection \<Rightarrow> pyval \<Rightarrow> int option \<Rightarrow> int option \<Rightarrow> exn + (connection \<times> int)" where
  "insert_article conn title aid mid =
     (case bind_text title of
        Inl e \<Rightarrow> Inl e
      | Inr t \<Rightarrow>
         (case bind_int aid of
            Inl e \<Rightarrow> Inl e
          | Inr ba \<Rightarrow>
             (case bind_int mid of
                Inl e \<Rightarrow> Inl e
              | Inr bm \<Rightarrow>
                 (let d = pending conn; rows = articles d in
                  case new_rowid (articles_seq d) (map r_id rows) of
                    Inl e \<Rightarrow> Inl e
                  | Inr i \<Rightarrow>
                      (case (t, ba, bm) of
                         (Some s, Some a, Some m) \<Rightarrow>
                           if foreign_keys conn \<and> \<not> references_ok d a m then Inl IntegrityError
                           else Inr (conn\<lparr>pending := d
                                  \<lparr>articles := rows @
                                     [\<lparr>r_id = i, r_title = s, r_author_id = a,
                                       r_magazine_id = m\<rparr>],
                                   articles_seq := next_seq (articles_seq d) i\<rparr>\<rparr>, i)
                       | _ \<Rightarrow> Inl IntegrityError)))))"

text \<open>\<open>UPDATE articles SET title = ?, author_id = ?, magazine_id = ? WHERE id = ?\<close>.\<close>

definition update_article ::
  "connection \<Rightarrow> pystr \<Rightarrow> int option \<Rightarrow> int option \<Rightarrow> int \<Rightarrow> exn + connection" where
  "update_article conn title aid mid i =
     (let rows = articles (pending conn) in
      if \<not> utf8_ok title then Inl UnicodeEncodeError
      else
        (case bind_int aid of
           Inl e \<Rightarrow> Inl e
         | Inr ba \<Rightarrow>
            (case bind_int mid of
               Inl e \<Rightarrow> Inl e
             | Inr bm \<Rightarrow>
                 if \<not> in_int64 i then Inl OverflowError
                 else if \<not> list_ex (\<lambda>r. r_id r = i) rows then Inr conn
                 else
                   (case (ba, bm) of
                      (Some a, Some m) \<Rightarrow>
                        if foreign_keys conn \<and> \<not> references_ok (pending conn) a m
                        then Inl IntegrityError
                        else Inr (conn\<lparr>pending := (pending conn)
                               \<lparr>articles := map (\<lambda>r. if r_id r = i
                                                    then r\<lparr>r_title := title, r_author_id := a,
                                                           r_magazine_id := m\<rparr>
                                                    else r) rows\<rparr>\<rparr>)
                    | _ \<Rightarrow> Inl IntegrityError))))"

text \<open>\<open>DELETE FROM articles WHERE id = ?\<close>.\<close>

definition delete_article :: "connection \<Rightarrow> int \<Rightarrow> exn + connection" where
  "delete_article conn i =
     (if \<not> in_int64 i then Inl OverflowError
      else Inr (conn\<lparr>pending := (pending conn)
             \<lparr>articles := filter (\<lambda>r. r_id r \<noteq> i) (articles (pending conn))\<rparr>\<rparr>))"

section \<open>The model classes\<close>

text \<open>
  Every method opens a connection on the stored database, and closes it in its
  \<open>finally\<close> block. A method that writes returns the database as the file holds it
  afterwards. \<open>except Exception\<close> catches every exception of its \<open>try\<close> block, calls
  \<open>rollback\<close> and prints; what is printed is not modelled.
\<close>

subsection \<open>Author\<close>

text \<open>\<open>Author._create_instance(row)\<close> is \<open>cls(row["name"], row["id"])\<close>.\<close>

definition Author_create_instance :: "author_row \<Rightarrow> exn + author" where
  "Author_create_instance row = Author_init (PyStr (a_name row)) (Some (a_id row))"

text \<open>
  \<open>Author.create\<close>: the \<open>try\<close> block executes the \<open>INSERT\<close>, commits, reads
  \<open>lastrowid\<close> and only then constructs the instance; an exception of any of these steps
  is caught and the method returns \<open>None\<close>.
\<close>

definition Author_create :: "pyval \<Rightarrow> db \<Rightarrow> (exn + author option) \<times> db" where
  "Author_create name d =
     (let conn = get_connection d in
      case insert_author conn name of
        Inl e \<Rightarrow> (Inr None, close_connection (rollback conn))
      | Inr (conn1, new_id) \<Rightarrow>
          (let conn2 = commit conn1 in
           case Author_init name (Some new_id) of
             Inl e \<Rightarrow> (Inr None, close_connection (rollback conn2))
           | Inr a \<Rightarrow> (Inr (Some a), close_connection conn2)))"

definition Author_update :: "author \<Rightarrow> db \<Rightarrow> db" where
  "Author_update self d =
     (case author_id self of
        None \<Rightarrow> d
      | Some i \<Rightarrow>
          (let conn = get_connection d in
           case update_author conn (author_name self) i of
             Inl e \<Rightarrow> close_connection (rollback conn)
           | Inr conn1 \<Rightarrow> close_connection (commit conn1)))"

definition Author_save :: "author \<Rightarrow> db \<Rightarrow> author \<times> db" where
  "Author_save self d =
     (case author_id self of
        None \<Rightarrow>
          (let conn = get_connection d in
           case insert_author conn (PyStr (author_name self)) of
             Inl e \<Rightarrow> (self, close_connection (rollback conn))
           | Inr (conn1, new_id) \<Rightarrow>
               (self\<lparr>author_id := Some new_id\<rparr>, close_connection (commit conn1)))
      | Some i \<Rightarrow> (self, Author_update self d))"

text \<open>The setter of \<open>Author.name\<close>: validate, assign, \<open>update()\<close>.\<close>

fun Author_set_name :: "pyval \<Rightarrow> author \<Rightarrow> db \<Rightarrow> (exn + author) \<times> db" where
  "Author_set_name (PyStr v) self d =
     (if 0 < length v \<and> length v \<le> 255
      then (let self1 = self\<lparr>author_name := v\<rparr> in (Inr self1, Author_update self1 d))
      else (Inl ValueError, d))"
| "Author_set_name _ self d = (Inl ValueError, d)"

text \<open>
  \<open>Author.delete\<close>: the id is reset after the commit; when the \<open>DELETE\<close> raises, the
  handler rolls back and the instance keeps its id.
\<close>

definition Author_delete :: "author \<Rightarrow> db \<Rightarrow> author \<times> db" where
  "Author_delete self d =
     (case author_id self of
        None \<Rightarrow> (self, d)
      | Some i \<Rightarrow>
          (let conn = get_connection d in
           case delete_author conn i of
             Inl e \<Rightarrow> (self, close_connection (rollback conn))
           | Inr conn1 \<Rightarrow> (self\<lparr>author_id := None\<rparr>, close_connection (commit conn1))))"

text \<open>
  The finders read only. An exception of the binding leaves the finder, as nothing
  catches it; \<open>fetchone()\<close> gives the first row of the result, and a row that is found
  goes through the constructor, whose exception nothing catches either.
\<close>

definition Author_find_by_id :: "int \<Rightarrow> db \<Rightarrow> exn + author option" where
  "Author_find_by_id i d =
     (if \<not> in_int64 i then Inl OverflowError
      else
        (case find (\<lambda>r. a_id r = i) (authors (pending (get_connection d))) of
           None \<Rightarrow> Inr None
         | Some row \<Rightarrow> map_sum id Some (Author_create_instance row)))"

definition Author_find_by_name :: "pystr \<Rightarrow> db \<Rightarrow> exn + author option" where
  "Author_find_by_name name d =
     (if \<not> utf8_ok name then Inl UnicodeEncodeError
      else
        (case find (\<lambda>r. a_name r = name) (authors (pending (get_connection d))) of
           None \<Rightarrow> Inr None
         | Some row \<Rightarrow> map_sum id Some (Author_create_instance row)))"

text \<open>A list comprehension over constructor calls: the first exception ends it.\<close>

fun instances :: "('r \<Rightarrow> exn + 'e) \<Rightarrow> 'r list \<Rightarrow> exn + 'e list" where
  "instances mk [] = Inr []"
| "instances mk (row # rows) =
     (case mk row of
        Inl e \<Rightarrow> Inl e
      | Inr x \<Rightarrow> (case instances mk rows of Inl e \<Rightarrow> Inl e | Inr xs \<Rightarrow> Inr (x # xs)))"

definition Author_get_all :: "db \<Rightarrow> exn + author list" where
  "Author_get_all d = instances Author_create_instance (authors (pending (get_connection d)))"

subsection \<open>Magazine\<close>

definition Magazine_create_instance :: "magazine_row \<Rightarrow> exn + magazine" where
  "Magazine_create_instance row =
     Magazine_init (PyStr (m_name row)) (PyStr (m_category row)) (Some (m_id row))"

definition Magazine_create :: "pyval \<Rightarrow> pyval \<Rightarrow> db \<Rightarrow> (exn + magazine option) \<times> db" where
  "Magazine_create name category d =
     (let conn = get_connection d in
      case insert_magazine conn name category of
        Inl e \<Rightarrow> (Inr None, close_connection (rollback conn))
      | Inr (conn1, new_id) \<Rightarrow>
          (let conn2 = commit conn1 in
           case Magazine_init name category (Some new_id) of
             Inl e \<Rightarrow> (Inr None, close_connection (rollback conn2))
           | Inr m \<Rightarrow> (Inr (Some m), close_connection conn2)))"

definition Magazine_update :: "magazine \<Rightarrow> db \<Rightarrow> db" where
  "Magazine_update self d =
     (case magazine_id self of
        None \<Rightarrow> d
      | Some i \<Rightarrow>
          (let conn = get_connection d in
           case update_magazine conn (magazine_name self) (magazine_category self) i of
             Inl e \<Rightarrow> close_connection (rollback conn)
           | Inr conn1 \<Rightarrow> close_connection (commit conn1)))"

definition Magazine_save :: "magazine \<Rightarrow> db \<Rightarrow> magazine \<times> db" where
  "Magazine_save self d =
     (case magazine_id self of
        None \<Rightarrow>
          (let conn = get_connection d in
           case insert_magazine conn (PyStr (magazine_name self)) (PyStr (magazine_category self)) of
             Inl e \<Rightarrow> (self, close_connection (rollback conn))
           | Inr (conn1, new_id) \<Rightarrow>
               (self\<lparr>magazine_id := Some new_id\<rparr>, close_connection (commit conn1)))
      | Some i \<Rightarrow> (self, Magazine_update self d))"

fun Magazine_set_name :: "pyval \<Rightarrow> magazine \<Rightarrow> db \<Rightarrow> (exn + magazine) \<times> db" where
  "Magazine_set_name (PyStr v) self d =
     (if 2 \<le> length v \<and> length v \<le> 16
      then (let self1 = self\<lparr>magazine_name := v\<rparr> in (Inr self1, Magazine_update self1 d))
      else (Inl ValueError, d))"
| "Magazine_set_name _ self d = (Inl ValueError, d)"

fun Magazine_set_category :: "pyval \<Rightarrow> magazine \<Rightarrow> db \<Rightarrow> (exn + magazine) \<times> db" where
  "Magazine_set_category (PyStr v) self d =
     (if 0 < length v \<and> length v \<le> 20
      then (let self1 = self\<lparr>magazine_category := v\<rparr> in (Inr self1, Magazine_update self1 d))
      else (Inl ValueError, d))"
| "Magazine_set_category _ self d = (Inl ValueError, d)"

definition Magazine_delete :: "magazine \<Rightarrow> db \<Rightarrow> magazine \<times> db" where
  "Magazine_delete self d =
     (case magazine_id self of
        None \<Rightarrow> (self, d)
      | Some i \<Rightarrow>
          (let conn = get_connection d in
           case delete_magazine conn i of
             Inl e \<Rightarrow> (self, close_connection (rollback conn))
           | Inr conn1 \<Rightarrow> (self\<lparr>magazine_id := None\<rparr>, close_connection (commit conn1))))"

definition Magazine_find_by_id :: "int \<Rightarrow> db \<Rightarrow> exn + magazine option" where
  "Magazine_find_by_id i d =
     (if \<not> in_int64 i then Inl OverflowError
      else
        (case find (\<lambda>r. m_id r = i) (magazines (pending (get_connection d))) of
           None \<Rightarrow> Inr None
         | Some row \<Rightarrow> map_sum id Some (Magazine_create_instance row)))"

definition Magazine_find_by_name :: "pystr \<Rightarrow> db \<Rightarrow> exn + magazine option" where
  "Magazine_find_by_name name d =
     (if \<not> utf8_ok name then Inl UnicodeEncodeError
      else
        (case find (\<lambda>r. m_name r = name) (magazines (pending (get_connection d))) of
           None \<Rightarrow> Inr None
         | Some row \<Rightarrow> map_sum id Some (Magazine_create_instance row)))"

definition Magazine_get_all :: "db \<Rightarrow> exn + magazine list" where
  "Magazine_get_all d =
     instances Magazine_create_instance (magazines (pending (get_connection d)))"

subsection \<open>Article\<close>

definition Article_create_instance :: "article_row \<Rightarrow> exn + article" where
  "Article_create_instance row =
     Article_init (PyStr (r_title row)) (Some (r_author_id row)) (Some (r_magazine_id row))
       (Some (r_id row))"

definition Article_create ::
  "pyval \<Rightarrow> int option \<Rightarrow> int option \<Rightarrow> db \<Rightarrow> (exn + article option) \<times> db" where
  "Article_create title aid mid d =
     (let conn = get_connection d in
      case insert_article conn title aid mid of
        Inl e \<Rightarrow> (Inr None, close_connection (rollback conn))
      | Inr (conn1, new_id) \<Rightarrow>
          (let conn2 = commit conn1 in
           case Article_init title aid mid (Some new_id) of
             Inl e \<Rightarrow> (Inr None, close_connection (rollback conn2))
           | Inr a \<Rightarrow> (Inr (Some a), close_connection conn2)))"

definition Article_update :: "article \<Rightarrow> db \<Rightarrow> db" where
  "Article_update self d =
     (case article_id self of
        None \<Rightarrow> d
      | Some i \<Rightarrow>
          (let conn = get_connection d in
           case update_article conn (article_title self) (article_author_id self)
                  (article_magazine_id self) i of
             Inl e \<Rightarrow> close_connection (rollback conn)
           | Inr conn1 \<Rightarrow> close_connection (commit conn1)))"

definition Article_save :: "article \<Rightarrow> db \<Rightarrow> article \<times> db" where
  "Article_save self d =
     (case article_id self of
        None \<Rightarrow>
          (let conn = get_connection d in
           case insert_article conn (PyStr (article_title self)) (article_author_id self)
                  (article_magazine_id self) of
             Inl e \<Rightarrow> (self, close_connection (rollback conn))
           | Inr (conn1, new_id) \<Rightarrow>
               (self\<lparr>article_id := Some new_id\<rparr>, close_connection (commit conn1)))
      | Some i \<Rightarrow> (self, Article_update self d))"

fun Article_set_title :: "pyval \<Rightarrow> article \<Rightarrow> db \<Rightarrow> (exn + article) \<times> db" where
  "Article_set_title (PyStr v) self d =
     (if 0 < length v \<and> length v \<le> 50
      then (let self1 = self\<lparr>article_title := v\<rparr> in (Inr self1, Article_update self1 d))
      else (Inl ValueError, d))"
| "Article_set_title _ self d = (Inl ValueError, d)"

definition Article_delete :: "article \<Rightarrow> db \<Rightarrow> article \<times> db" where
  "Article_delete self d =
     (case article_id self of
        None \<Rightarrow> (self, d)
      | Some i \<Rightarrow>
          (let conn = get_connection d in
           case delete_article conn i of
             Inl e \<Rightarrow> (self, close_connection (rollback conn))
           | Inr conn1 \<Rightarrow> (self\<lparr>article_id := None\<rparr>, close_connection (commit conn1))))"

definition Article_find_by_id :: "int \<Rightarrow> db \<Rightarrow> exn + article option" where
  "Article_find_by_id i d =
     (if \<not> in_int64 i then Inl OverflowError
      else
        (case find (\<lambda>r. r_id r = i) (articles (pending (get_connection d))) of
           None \<Rightarrow> Inr None
         | Some row \<Rightarrow> map_sum id Some (Article_create_instance row)))"

definition Article_find_by_title :: "pystr \<Rightarrow> db \<Rightarrow> exn + article option" where
  "Article_find_by_title title d =
     (if \<not> utf8_ok title then Inl UnicodeEncodeError
      else
        (case find (\<lambda>r. r_title r = title) (articles (pending (get_connection d))) of
           None \<Rightarrow> Inr None
         | Some row \<Rightarrow> map_sum id Some (Article_create_instance row)))"

definition Article_get_all :: "db \<Rightarrow> exn + article list" where
  "Article_get_all d =
     instances Article_create_instance (articles (pending (get_connection d)))"

subsection \<open>Relationship and aggregate methods\<close>

text \<open>
  The argument \<open>magazine\<close> of \<open>Author.add_article\<close> is any Python object: an instance of
  one of the three classes, or a plain value.
\<close>

datatype pyobj = Plain pyval | AuthorObj author | MagazineObj magazine | ArticleObj article

text \<open>
  \<open>Author.add_article\<close>: \<open>isinstance(magazine, Magazine)\<close> or TypeError, then
  \<open>Article.create(title, self.id, magazine.id)\<close>.
\<close>

fun Author_add_article ::
  "author \<Rightarrow> pyobj \<Rightarrow> pyval \<Rightarrow> db \<Rightarrow> (exn + article option) \<times> db" where
  "Author_add_article self (MagazineObj m) title d =
     Article_create title (author_id self) (magazine_id m) d"
| "Author_add_article self _ title d = (Inl TypeError, d)"

text \<open>
  The pieces of a \<open>SELECT\<close>: \<open>JOIN ... ON\<close>, \<open>LEFT JOIN ... ON\<close> (a left row without a
  partner is kept once, with NULL columns on the right) and \<open>GROUP BY\<close> an integer column
  (the groups come in ascending order of the column).
\<close>

definition inner_join :: "'a list \<Rightarrow> 'b list \<Rightarrow> ('a \<Rightarrow> 'b \<Rightarrow> bool) \<Rightarrow> ('a \<times> 'b) list" where
  "inner_join xs ys on = concat (map (\<lambda>x. map (Pair x) (filter (on x) ys)) xs)"

definition left_join ::
  "'a list \<Rightarrow> 'b list \<Rightarrow> ('a \<Rightarrow> 'b \<Rightarrow> bool) \<Rightarrow> ('a \<times> 'b option) list" where
  "left_join xs ys on =
     concat (map (\<lambda>x. case filter (on x) ys of
                         [] \<Rightarrow> [(x, None)]
                       | y # zs \<Rightarrow> map (\<lambda>z. (x, Some z)) (y # zs)) xs)"

definition group_by :: "('r \<Rightarrow> int) \<Rightarrow> 'r list \<Rightarrow> 'r list list" where
  "group_by key rows =
     map (\<lambda>k. filter (\<lambda>r. key r = k) rows) (sort (remdups (map key rows)))"

text \<open>
  \<open>Magazine.contributing_authors\<close>:
  \<^verbatim>\<open>SELECT a.*, COUNT(art.id) AS article_count FROM authors a
  JOIN articles art ON a.id = art.author_id WHERE art.magazine_id = ?
  GROUP BY a.id HAVING COUNT(art.id) > 2\<close>
  with \<open>self.id\<close> as the parameter: an id outside 64 bits raises OverflowError when
  it is bound, and a comparison with NULL selects no row. \<open>art.id\<close> is
  never NULL, so the count of a group is its number of rows, and the columns \<open>a.*\<close> of a
  group are those of its first row.
\<close>

definition Magazine_contributing_authors :: "magazine \<Rightarrow> db \<Rightarrow> exn + author list" where
  "Magazine_contributing_authors self d =
     (case magazine_id self of
        None \<Rightarrow> Inr []
      | Some mid \<Rightarrow>
          if \<not> in_int64 mid then Inl OverflowError
          else
            (let joined = inner_join (authors d) (articles d) (\<lambda>a art. a_id a = r_author_id art);
                 selected = filter (\<lambda>(a, art). r_magazine_id art = mid) joined;
                 groups = group_by (\<lambda>(a, art). a_id a) selected;
                 having = filter (\<lambda>g. 2 < length g) groups;
                 rows = concat (map (\<lambda>g. case g of [] \<Rightarrow> [] | (a, art) # _ \<Rightarrow> [a]) having)
             in instances Author_create_instance rows))"

text \<open>
  \<open>Magazine.top_publisher\<close>:
  \<^verbatim>\<open>SELECT m.*, COUNT(a.id) AS article_count FROM magazines m
  LEFT JOIN articles a ON m.id = a.magazine_id
  GROUP BY m.id ORDER BY article_count DESC LIMIT 1\<close>
  \<open>COUNT(a.id)\<close> counts the rows of a group whose article is not NULL. Among groups of
  equal count the order is the one of the groups (the sort is stable).
\<close>

definition Magazine_top_publisher :: "db \<Rightarrow> exn + magazine option" where
  "Magazine_top_publisher d =
     (let joined = left_join (magazines d) (articles d) (\<lambda>m a. m_id m = r_magazine_id a);
          groups = group_by (\<lambda>(m, a). m_id m) joined;
          counted = concat (map (\<lambda>g. case g of
                                   [] \<Rightarrow> []
                                 | (m, a) # _ \<Rightarrow> [(m, length (filter (\<lambda>(m, a). a \<noteq> None) g))])
                              groups);
          ordered = sort_key (\<lambda>(m, n). - int n) counted
      in case ordered of
           [] \<Rightarrow> Inr None
         | (m, n) # _ \<Rightarrow> map_sum id Some (Magazine_create_instance m))"

section \<open>The vocabulary of the specification\<close>

text \<open>
  The length bounds of the data model: an author's name has 1 to 255 characters, a
  magazine's name 2 to 16, a category 1 to 20, a title 1 to 50.
\<close>

definition valid_author_name :: "pystr \<Rightarrow> bool" where
  "valid_author_name s = (1 \<le> length s \<and> length s \<le> 255)"

definition valid_magazine_name :: "pystr \<Rightarrow> bool" where
  "valid_magazine_name s = (2 \<le> length s \<and> length s \<le> 16)"

definition valid_category :: "pystr \<Rightarrow> bool" where
  "valid_category s = (1 \<le> length s \<and> length s \<le> 20)"

definition valid_title :: "pystr \<Rightarrow> bool" where
  "valid_title s = (1 \<le> length s \<and> length s \<le> 50)"

text \<open>A value meets a constraint when it is a string that does.\<close>

fun meets :: "(pystr \<Rightarrow> bool) \<Rightarrow> pyval \<Rightarrow> bool" where
  "meets ok (PyStr s) = ok s"
| "meets ok _ = False"

text \<open>The entity a stored row stands for.\<close>

definition author_of :: "author_row \<Rightarrow> author" where
  "author_of r = \<lparr>author_name = a_name r, author_id = Some (a_id r)\<rparr>"

definition magazine_of :: "magazine_row \<Rightarrow> magazine" where
  "magazine_of r =
     \<lparr>magazine_name = m_name r, magazine_category = m_category r, magazine_id = Some (m_id r)\<rparr>"

definition article_of :: "article_row \<Rightarrow> article" where
  "article_of r =
     \<lparr>article_title = r_title r, article_author_id = Some (r_author_id r),
      article_magazine_id = Some (r_magazine_id r), article_id = Some (r_id r)\<rparr>"

text \<open>The stored rows satisfy the constraints of their entities.\<close>

definition valid_author_row :: "author_row \<Rightarrow> bool" where
  "valid_author_row r = valid_author_name (a_name r)"

definition valid_magazine_row :: "magazine_row \<Rightarrow> bool" where
  "valid_magazine_row r = (valid_magazine_name (m_name r) \<and> valid_category (m_category r))"

definition valid_article_row :: "article_row \<Rightarrow> bool" where
  "valid_article_row r = valid_title (r_title r)"

text \<open>
  What the storage engine guarantees of every database: the primary keys of a table are
  distinct, and so are the names of the authors and of the magazines (\<open>UNIQUE\<close>); every
  stored integer fits 64 bits, and every stored text has a UTF-8 encoding.
\<close>

definition seq_ok :: "int option \<Rightarrow> bool" where
  "seq_ok seq = (case seq of None \<Rightarrow> True | Some n \<Rightarrow> in_int64 n)"

definition keys_ok :: "db \<Rightarrow> bool" where
  "keys_ok d =
     (distinct (map a_id (authors d)) \<and> distinct (map a_name (authors d)) \<and>
      distinct (map m_id (magazines d)) \<and> distinct (map m_name (magazines d)) \<and>
      distinct (map r_id (articles d)) \<and>
      list_all (\<lambda>r. in_int64 (a_id r) \<and> utf8_ok (a_name r)) (authors d) \<and>
      list_all (\<lambda>r. in_int64 (m_id r) \<and> utf8_ok (m_name r) \<and> utf8_ok (m_category r))
        (magazines d) \<and>
      list_all (\<lambda>r. in_int64 (r_id r) \<and> utf8_ok (r_title r) \<and> in_int64 (r_author_id r) \<and>
                    in_int64 (r_magazine_id r)) (articles d) \<and>
      seq_ok (authors_seq d) \<and> seq_ok (magazines_seq d) \<and> seq_ok (articles_seq d))"

text \<open>The number of articles an author has in a magazine, and a magazine has in all.\<close>

definition articles_in :: "db \<Rightarrow> int \<Rightarrow> int \<Rightarrow> nat" where
  "articles_in d aid mid =
     length (filter (\<lambda>r. r_author_id r = aid \<and> r_magazine_id r = mid) (articles d))"

definition article_count :: "db \<Rightarrow> int \<Rightarrow> nat" where
  "article_count d mid = length (filter (\<lambda>r. r_magazine_id r = mid) (articles d))"

text \<open>
  The authors that \<open>contributing_authors()\<close> is about, and the magazines that
  \<open>top_publisher()\<close> is about: the stored authors with more than 2 articles in the
  magazine, and the stored magazines whose number of articles no magazine exceeds.
\<close>

definition contributing :: "db \<Rightarrow> int \<Rightarrow> author_row list" where
  "contributing d mid = filter (\<lambda>a. 2 < articles_in d (a_id a) mid) (authors d)"

definition top_magazines :: "db \<Rightarrow> magazine_row list" where
  "top_magazines d =
     filter (\<lambda>m. list_all (\<lambda>m'. article_count d (m_id m') \<le> article_count d (m_id m))
                   (magazines d))
       (magazines d)"

text \<open>Small databases for the examples, with the tables of the test fixtures.\<close>

definition empty_db :: db where
  "empty_db =
     \<lparr>authors = [], magazines = [], articles = [],
      authors_seq = Some 0, magazines_seq = Some 0, articles_seq = Some 0\<rparr>"

definition john :: author_row where
  "john = \<lparr>a_id = 1, a_name = str ''John Doe''\<rparr>"

definition jane :: author_row where
  "jane = \<lparr>a_id = 2, a_name = str ''Jane Smith''\<rparr>"

definition tech_today :: magazine_row where
  "tech_today = \<lparr>m_id = 1, m_name = str ''Tech Today'', m_category = str ''Technology''\<rparr>"

definition fashion_weekly :: magazine_row where
  "fashion_weekly =
     \<lparr>m_id = 2, m_name = str ''Fashion Weekly'', m_category = str ''Fashion''\<rparr>"

definition sample_db :: db where
  "sample_db =
     \<lparr>authors = [john, jane],
      magazines = [tech_today, fashion_weekly],
      articles =
        [\<lparr>r_id = 1, r_title = str ''The Future of AI'', r_author_id = 1, r_magazine_id = 1\<rparr>,
         \<lparr>r_id = 2, r_title = str ''Summer Fashion Trends'', r_author_id = 2,
           r_magazine_id = 2\<rparr>,
         \<lparr>r_id = 3, r_title = str ''Quantum Computing Explained'', r_author_id = 1,
           r_magazine_id = 1\<rparr>],
      authors_seq = Some 2, magazines_seq = Some 2, articles_seq = Some 3\<rparr>"

text \<open>
  A database with rows that do not satisfy the constraints: an author without a name,
  a magazine with a name of one character, an article without a title.
\<close>

definition invalid_db :: db where
  "invalid_db =
     \<lparr>authors = [john, \<lparr>a_id = 2, a_name = str ''''\<rparr>],
      magazines = [\<lparr>m_id = 1, m_name = str ''a'', m_category = str ''Category''\<rparr>,
                   tech_today\<lparr>m_id := 2\<rparr>],
      articles = [\<lparr>r_id = 1, r_title = str '''', r_author_id = 1, r_magazine_id = 1\<rparr>],
      authors_seq = Some 2, magazines_seq = Some 2, articles_seq = Some 1\<rparr>"

text \<open>
  Two databases that the layer itself produces from the empty one. In the first,
  \<open>Author.create("")\<close> has stored an author without a name, who then has three
  articles in a magazine. In the second, \<open>Magazine.create("a", "Category")\<close> has stored
  a magazine with a name of one character.
\<close>

definition nameless_author_db :: db where
  "nameless_author_db =
     (let d1 = snd (Author_create (PyStr (str '''')) empty_db);
          d2 = snd (Magazine_create (PyStr (str ''Tech Today'')) (PyStr (str ''Technology'')) d1);
          d3 = snd (Article_create (PyStr (str ''The Future of AI'')) (Some 1) (Some 1) d2);
          d4 = snd (Article_create (PyStr (str ''AI Ethics'')) (Some 1) (Some 1) d3)
      in snd (Article_create (PyStr (str ''Cybersecurity Basics'')) (Some 1) (Some 1) d4))"

definition short_magazine_db :: db where
  "short_magazine_db =
     snd (Magazine_create (PyStr (str ''a'')) (PyStr (str ''Category'')) empty_db)"

section \<open>Facts about strings, bindings and row ids\<close>

lemma length_str [simp]: "length (str s) = length s"
  by (simp add: str_def)

lemma str_eq_iff [simp]: "str s = str t \<longleftrightarrow> s = t"
  by (simp add: str_def inj_on_def)

lemma of_char_code_point: "of_char c < (256::nat)"
proof -
  have "(of_char c :: nat) mod 256 < 256" by simp
  then show ?thesis by (simp only: of_char_mod_256)
qed

lemma utf8_ok_str [simp]: "utf8_ok (str s)"
proof -
  have "of_char c < (55296::nat)" for c :: char
    using of_char_code_point [of c] by (rule less_trans) simp
  then show ?thesis by (simp add: utf8_ok_def str_def list_all_iff)
qed

lemma in_int64_small [simp]: "in_int64 0" "in_int64 1" "in_int64 2" "in_int64 3" "in_int64 4"
  by (simp_all add: in_int64_def)

lemma keys_ok_sample_db: "keys_ok sample_db"
  by (simp add: keys_ok_def seq_ok_def in_int64_def sample_db_def john_def jane_def
      tech_today_def fashion_weekly_def)

section \<open>Construction\<close>

text \<open>
  Claim C8. Construction of an Author, a Magazine or an Article raises ValueError (the
  validation error) for every value that is not a string within the bounds of the field:
  a string that is empty or too long, and every value that is not a string. Within the
  bounds it returns the instance. The constructors take no database and return none:
  their source has no statement that opens a connection.
\<close>

theorem construction_validates:
  "(\<not> meets valid_author_name v \<longrightarrow> Author_init v i = Inl ValueError) \<and>
   (\<not> (meets valid_magazine_name n \<and> meets valid_category c) \<longrightarrow>
      Magazine_init n c i = Inl ValueError) \<and>
   (\<not> meets valid_title t \<longrightarrow> Article_init t aid mid i = Inl ValueError) \<and>
   (valid_author_name s1 \<longrightarrow> Author_init (PyStr s1) i = Inr \<lparr>author_name = s1, author_id = i\<rparr>) \<and>
   (valid_magazine_name s2 \<and> valid_category k \<longrightarrow>
      Magazine_init (PyStr s2) (PyStr k) i =
        Inr \<lparr>magazine_name = s2, magazine_category = k, magazine_id = i\<rparr>) \<and>
   (valid_title s3 \<longrightarrow>
      Article_init (PyStr s3) aid mid i =
        Inr \<lparr>article_title = s3, article_author_id = aid, article_magazine_id = mid,
             article_id = i\<rparr>)"
proof -
  have a: "\<not> meets valid_author_name v \<longrightarrow> Author_init v i = Inl ValueError"
    by (cases v) (auto simp: valid_author_name_def Suc_le_eq)
  have m: "\<not> (meets valid_magazine_name n \<and> meets valid_category c) \<longrightarrow>
      Magazine_init n c i = Inl ValueError"
    by (cases n; cases c) (auto simp: valid_magazine_name_def valid_category_def Suc_le_eq)
  have t: "\<not> meets valid_title t \<longrightarrow> Article_init t aid mid i = Inl ValueError"
    by (cases t) (auto simp: valid_title_def Suc_le_eq)
  show ?thesis using a m t
    by (auto simp: valid_author_name_def valid_magazine_name_def valid_category_def
        valid_title_def Suc_le_eq)
qed

theorem construction_validates_witness:
  "\<not> meets valid_author_name (PyInt 123) \<and> Author_init (PyInt 123) None = Inl ValueError \<and>
   \<not> (meets valid_magazine_name (PyStr (str ''a'')) \<and> meets valid_category (PyStr (str ''Category''))) \<and>
   Magazine_init (PyStr (str ''a'')) (PyStr (str ''Category'')) None = Inl ValueError \<and>
   \<not> meets valid_title (PyStr (str '''')) \<and>
   Article_init (PyStr (str '''')) (Some 1) (Some 1) None = Inl ValueError \<and>
   valid_author_name (str ''Test Author'') \<and>
   Author_init (PyStr (str ''Test Author'')) None =
     Inr \<lparr>author_name = str ''Test Author'', author_id = None\<rparr> \<and>
   valid_magazine_name (str ''New Mag'') \<and> valid_category (str ''New Cat'') \<and>
   Magazine_init (PyStr (str ''New Mag'')) (PyStr (str ''New Cat'')) None =
     Inr \<lparr>magazine_name = str ''New Mag'', magazine_category = str ''New Cat'', magazine_id = None\<rparr> \<and>
   valid_title (str ''The Future of AI'') \<and>
   Article_init (PyStr (str ''The Future of AI'')) (Some 1) (Some 1) None =
     Inr \<lparr>article_title = str ''The Future of AI'', article_author_id = Some 1,
          article_magazine_id = Some 1, article_id = None\<rparr>"
  using construction_validates [of "PyInt 123" None "PyStr (str ''a'')" "PyStr (str ''Category'')"
      "PyStr (str '''')" "Some 1" "Some 1" "str ''Test Author''" "str ''New Mag''" "str ''New Cat''"
      "str ''The Future of AI''"]
  by (simp add: valid_author_name_def valid_magazine_name_def valid_title_def valid_category_def)

section \<open>Adding an article\<close>

text \<open>
  Claim C7. \<open>Author.add_article\<close> with an argument that is not a Magazine instance
  raises TypeError and leaves the database as it was; with a Magazine instance it is
  \<open>Article.create\<close> on the title, the author's id and the magazine's id.
\<close>

theorem add_article_checks_type:
  "((\<forall>m. obj \<noteq> MagazineObj m) \<longrightarrow> Author_add_article self obj title d = (Inl TypeError, d)) \<and>
   Author_add_article self (MagazineObj m) title d =
     Article_create title (author_id self) (magazine_id m) d"
  by (cases obj) auto

theorem add_article_checks_type_witness:
  "(\<forall>m. Plain (PyStr (str ''not a magazine'')) \<noteq> MagazineObj m) \<and>
   Author_add_article (author_of john) (Plain (PyStr (str ''not a magazine''))) (PyStr (str ''invalid''))
     sample_db = (Inl TypeError, sample_db)"
  using add_article_checks_type [of "Plain (PyStr (str ''not a magazine''))" "author_of john"
      "PyStr (str ''invalid'')" sample_db]
  by simp

section \<open>Setters of an instance that is not persisted\<close>

text \<open>
  Claim C10. On an instance whose id is \<open>None\<close>, a setter given a valid value changes
  the field of the instance only; the database is unchanged, since \<open>update()\<close> does
  nothing without an id.
\<close>

theorem unsaved_setter_keeps_storage:
  "(author_id a = None \<and> valid_author_name s1 \<longrightarrow>
      Author_set_name (PyStr s1) a d = (Inr (a\<lparr>author_name := s1\<rparr>), d)) \<and>
   (magazine_id m = None \<and> valid_magazine_name s2 \<longrightarrow>
      Magazine_set_name (PyStr s2) m d = (Inr (m\<lparr>magazine_name := s2\<rparr>), d)) \<and>
   (magazine_id m = None \<and> valid_category s3 \<longrightarrow>
      Magazine_set_category (PyStr s3) m d = (Inr (m\<lparr>magazine_category := s3\<rparr>), d)) \<and>
   (article_id t = None \<and> valid_title s4 \<longrightarrow>
      Article_set_title (PyStr s4) t d = (Inr (t\<lparr>article_title := s4\<rparr>), d))"
  by (simp add: valid_author_name_def valid_magazine_name_def valid_category_def valid_title_def
      Author_update_def Magazine_update_def Article_update_def Suc_le_eq)

theorem unsaved_setter_keeps_storage_witness:
  "author_id \<lparr>author_name = str ''Test Author'', author_id = None\<rparr> = None \<and>
   valid_author_name (str ''Jonathan Doe'') \<and>
   Author_set_name (PyStr (str ''Jonathan Doe'')) \<lparr>author_name = str ''Test Author'', author_id = None\<rparr>
     sample_db = (Inr \<lparr>author_name = str ''Jonathan Doe'', author_id = None\<rparr>, sample_db) \<and>
   magazine_id \<lparr>magazine_name = str ''New Mag'', magazine_category = str ''New Cat'', magazine_id = None\<rparr>
     = None \<and>
   valid_magazine_name (str ''Other Mag'') \<and>
   Magazine_set_name (PyStr (str ''Other Mag''))
     \<lparr>magazine_name = str ''New Mag'', magazine_category = str ''New Cat'', magazine_id = None\<rparr> sample_db
     = (Inr \<lparr>magazine_name = str ''Other Mag'', magazine_category = str ''New Cat'', magazine_id = None\<rparr>,
        sample_db) \<and>
   valid_category (str ''Other Cat'') \<and>
   Magazine_set_category (PyStr (str ''Other Cat''))
     \<lparr>magazine_name = str ''New Mag'', magazine_category = str ''New Cat'', magazine_id = None\<rparr> sample_db
     = (Inr \<lparr>magazine_name = str ''New Mag'', magazine_category = str ''Other Cat'', magazine_id = None\<rparr>,
        sample_db) \<and>
   article_id \<lparr>article_title = str ''Draft'', article_author_id = Some 1,
      article_magazine_id = Some 1, article_id = None\<rparr> = None \<and>
   valid_title (str ''Final'') \<and>
   Article_set_title (PyStr (str ''Final'')) \<lparr>article_title = str ''Draft'', article_author_id = Some 1,
      article_magazine_id = Some 1, article_id = None\<rparr> sample_db
     = (Inr \<lparr>article_title = str ''Final'', article_author_id = Some 1,
          article_magazine_id = Some 1, article_id = None\<rparr>, sample_db)"
  using unsaved_setter_keeps_storage [of "\<lparr>author_name = str ''Test Author'', author_id = None\<rparr>"
      "str ''Jonathan Doe''" sample_db
      "\<lparr>magazine_name = str ''New Mag'', magazine_category = str ''New Cat'', magazine_id = None\<rparr>"
      "str ''Other Mag''" "str ''Other Cat''"
      "\<lparr>article_title = str ''Draft'', article_author_id = Some 1,
      article_magazine_id = Some 1, article_id = None\<rparr>" "str ''Final''"]
  by (simp add: valid_author_name_def valid_magazine_name_def valid_category_def valid_title_def)

section \<open>Creation with an invalid value\<close>

text \<open>
  Claim C1. The claim is that no operation writes a value that violates its constraint
  into the storage. \<open>create\<close> does: it inserts and commits before it constructs the
  instance, so the row with the empty name, the one-character magazine name or the empty
  title is stored when the constructor raises, and the \<open>rollback\<close> of the handler comes
  after the commit.
\<close>

theorem create_stores_invalid_value:
  "Author_create (PyStr (str '''')) empty_db =
     (Inr None, empty_db\<lparr>authors := [\<lparr>a_id = 1, a_name = str ''''\<rparr>], authors_seq := Some 1\<rparr>) \<and>
   Magazine_create (PyStr (str ''a'')) (PyStr (str ''Category'')) empty_db =
     (Inr None,
      empty_db\<lparr>magazines := [\<lparr>m_id = 1, m_name = str ''a'', m_category = str ''Category''\<rparr>],
               magazines_seq := Some 1\<rparr>) \<and>
   Article_create (PyStr (str '''')) (Some 1) (Some 1) sample_db =
     (Inr None,
      sample_db\<lparr>articles := articles sample_db @
         [\<lparr>r_id = 4, r_title = str '''', r_author_id = 1, r_magazine_id = 1\<rparr>],
         articles_seq := Some 4\<rparr>)"
  by (simp add: Author_create_def Magazine_create_def Article_create_def empty_db_def
      sample_db_def get_connection_def insert_author_def insert_magazine_def insert_article_def
      new_rowid_def room_def next_seq_def commit_def rollback_def close_connection_def)

text \<open>
  Claim C3. The claim is that \<open>create\<close> lets the validation error reach its caller.
  The constructor is called inside the \<open>try\<close> block, whose \<open>except Exception\<close> catches
  the ValueError: \<open>create\<close> raises nothing at all, and returns \<open>None\<close> for an invalid
  value.
\<close>

theorem create_swallows_validation_error:
  "fst (Author_create name d) \<noteq> Inl e \<and>
   fst (Magazine_create name category d) \<noteq> Inl e \<and>
   fst (Article_create title aid mid d) \<noteq> Inl e \<and>
   fst (Author_create (PyStr (str '''')) empty_db) = Inr None \<and>
   fst (Magazine_create (PyStr (str ''a'')) (PyStr (str ''Category'')) empty_db) = Inr None \<and>
   fst (Article_create (PyStr (str '''')) (Some 1) (Some 1) sample_db) = Inr None"
proof -
  have a: "fst (Author_create name d) \<noteq> Inl e"
    by (simp add: Author_create_def Let_def split: sum.splits prod.splits)
  have m: "fst (Magazine_create name category d) \<noteq> Inl e"
    by (simp add: Magazine_create_def Let_def split: sum.splits prod.splits)
  have t: "fst (Article_create title aid mid d) \<noteq> Inl e"
    by (simp add: Article_create_def Let_def split: sum.splits prod.splits)
  have x: "fst (Author_create (PyStr (str '''')) empty_db) = Inr None"
    by (simp add: Author_create_def empty_db_def get_connection_def insert_author_def
        new_rowid_def room_def Let_def)
  have y: "fst (Magazine_create (PyStr (str ''a'')) (PyStr (str ''Category'')) empty_db) = Inr None"
    by (simp add: Magazine_create_def empty_db_def get_connection_def insert_magazine_def
        new_rowid_def room_def Let_def)
  have z: "fst (Article_create (PyStr (str '''')) (Some 1) (Some 1) sample_db) = Inr None"
    by (simp add: Article_create_def sample_db_def get_connection_def insert_article_def
        new_rowid_def room_def Let_def)
  show ?thesis using a m t x y z by simp
qed

section \<open>Deletion\<close>

text \<open>
  Claim C2. The claim is that \<open>delete()\<close> of an author or a magazine removes the
  articles that reference it. The connection never enables foreign keys, so the
  \<open>DELETE\<close> removes the one row of its table and the articles stay: the two articles of
  author 1 are still stored after the author is deleted. The other half of the claim
  holds: \<open>find_by_id\<close> on the deleted id returns \<open>None\<close>.
\<close>

theorem delete_leaves_articles:
  "snd (Author_delete (author_of john) sample_db) = sample_db\<lparr>authors := [jane]\<rparr> \<and>
   snd (Magazine_delete (magazine_of tech_today) sample_db) =
     sample_db\<lparr>magazines := [fashion_weekly]\<rparr> \<and>
   filter (\<lambda>r. r_author_id r = 1) (articles (snd (Author_delete (author_of john) sample_db)))
     = [\<lparr>r_id = 1, r_title = str ''The Future of AI'', r_author_id = 1, r_magazine_id = 1\<rparr>,
        \<lparr>r_id = 3, r_title = str ''Quantum Computing Explained'', r_author_id = 1,
           r_magazine_id = 1\<rparr>] \<and>
   Author_find_by_id 1 (snd (Author_delete (author_of john) sample_db)) = Inr None \<and>
   Magazine_find_by_id 1 (snd (Magazine_delete (magazine_of tech_today) sample_db)) = Inr None"
  by (simp add: Author_delete_def Magazine_delete_def author_of_def magazine_of_def john_def
      jane_def tech_today_def fashion_weekly_def sample_db_def get_connection_def
      delete_author_def delete_magazine_def commit_def close_connection_def
      Author_find_by_id_def Magazine_find_by_id_def)

section \<open>Finders on rows that violate the constraints\<close>

lemma find_by_key:
  "distinct (map key rows) \<Longrightarrow> r \<in> set rows \<Longrightarrow> find (\<lambda>x. key x = key r) rows = Some r"
  by (induction rows) (auto simp: image_iff)

lemma find_same_field:
  "r \<in> set rows \<Longrightarrow> \<exists>x. find (\<lambda>x. f x = f r) rows = Some x \<and> f x = f r"
  by (induction rows) auto

lemma instances_Inl:
  "r \<in> set rows \<Longrightarrow> mk r = Inl e \<Longrightarrow> \<forall>x e'. mk x = Inl e' \<longrightarrow> e' = e \<Longrightarrow>
     instances mk rows = Inl e"
proof (induction rows)
  case Nil
  from Nil(1) show ?case by simp
next
  case (Cons x rows)
  show ?case
  proof (cases "mk x")
    case (Inl e')
    with Cons.prems(3) have "e' = e" by blast
    with Inl show ?thesis by simp
  next
    case (Inr y)
    with Cons.prems(1,2) have "r \<in> set rows" by auto
    with Cons.IH Cons.prems(2,3) have "instances mk rows = Inl e" by blast
    with Inr show ?thesis by simp
  qed
qed

lemma instances_Inr:
  "(\<And>x. x \<in> set rows \<Longrightarrow> mk x = Inr (f x)) \<Longrightarrow> instances mk rows = Inr (map f rows)"
  by (induction rows) auto

lemma keys_ok_author:
  "keys_ok d \<Longrightarrow> a \<in> set (authors d) \<Longrightarrow> in_int64 (a_id a) \<and> utf8_ok (a_name a)"
  by (simp add: keys_ok_def list_all_iff)

lemma keys_ok_magazine:
  "keys_ok d \<Longrightarrow> m \<in> set (magazines d) \<Longrightarrow> in_int64 (m_id m) \<and> utf8_ok (m_name m)"
  by (simp add: keys_ok_def list_all_iff)

lemma keys_ok_article:
  "keys_ok d \<Longrightarrow> t \<in> set (articles d) \<Longrightarrow> in_int64 (r_id t) \<and> utf8_ok (r_title t)"
  by (simp add: keys_ok_def list_all_iff)

lemma Author_create_instance_eq:
  "Author_create_instance r = (if valid_author_row r then Inr (author_of r) else Inl ValueError)"
  by (simp add: Author_create_instance_def valid_author_row_def valid_author_name_def
      author_of_def Suc_le_eq)

lemma Magazine_create_instance_eq:
  "Magazine_create_instance r =
     (if valid_magazine_row r then Inr (magazine_of r) else Inl ValueError)"
  by (simp add: Magazine_create_instance_def valid_magazine_row_def valid_magazine_name_def
      valid_category_def magazine_of_def Suc_le_eq)

lemma Article_create_instance_eq:
  "Article_create_instance r = (if valid_article_row r then Inr (article_of r) else Inl ValueError)"
  by (simp add: Article_create_instance_def valid_article_row_def valid_title_def
      article_of_def Suc_le_eq)

text \<open>
  Claim C9. Every finder builds its result through the validating constructor, which
  nothing around it catches. So for a stored row that violates the constraints of its
  entity, \<open>find_by_id\<close> on its id, \<open>find_by_name\<close> or \<open>find_by_title\<close> on its name or
  title, and \<open>get_all\<close> raise ValueError; they return neither an instance nor \<open>None\<close>.
\<close>

theorem finders_reject_invalid_rows:
  assumes "keys_ok d"
  shows "(a \<in> set (authors d) \<and> \<not> valid_author_row a \<longrightarrow>
            Author_find_by_id (a_id a) d = Inl ValueError \<and>
            Author_find_by_name (a_name a) d = Inl ValueError \<and>
            Author_get_all d = Inl ValueError) \<and>
         (m \<in> set (magazines d) \<and> \<not> valid_magazine_row m \<longrightarrow>
            Magazine_find_by_id (m_id m) d = Inl ValueError \<and>
            Magazine_find_by_name (m_name m) d = Inl ValueError \<and>
            Magazine_get_all d = Inl ValueError) \<and>
         (t \<in> set (articles d) \<and> \<not> valid_article_row t \<longrightarrow>
            Article_find_by_id (r_id t) d = Inl ValueError \<and>
            Article_find_by_title (r_title t) d = Inl ValueError \<and>
            Article_get_all d = Inl ValueError)"
proof (intro conjI impI)
  assume h: "a \<in> set (authors d) \<and> \<not> valid_author_row a"
  with assms have b: "in_int64 (a_id a) \<and> utf8_ok (a_name a)" by (simp add: keys_ok_author)
  from assms h have "find (\<lambda>x. a_id x = a_id a) (authors d) = Some a"
    by (simp add: keys_ok_def find_by_key)
  with h b show "Author_find_by_id (a_id a) d = Inl ValueError"
    by (simp add: Author_find_by_id_def get_connection_def Author_create_instance_eq)
  from assms h have "find (\<lambda>x. a_name x = a_name a) (authors d) = Some a"
    by (simp add: keys_ok_def find_by_key)
  with h b show "Author_find_by_name (a_name a) d = Inl ValueError"
    by (simp add: Author_find_by_name_def get_connection_def Author_create_instance_eq)
  from h have "instances Author_create_instance (authors d) = Inl ValueError"
    by (intro instances_Inl [of a]) (simp_all add: Author_create_instance_eq)
  then show "Author_get_all d = Inl ValueError"
    by (simp add: Author_get_all_def get_connection_def)
next
  assume h: "m \<in> set (magazines d) \<and> \<not> valid_magazine_row m"
  with assms have b: "in_int64 (m_id m) \<and> utf8_ok (m_name m)" by (simp add: keys_ok_magazine)
  from assms h have "find (\<lambda>x. m_id x = m_id m) (magazines d) = Some m"
    by (simp add: keys_ok_def find_by_key)
  with h b show "Magazine_find_by_id (m_id m) d = Inl ValueError"
    by (simp add: Magazine_find_by_id_def get_connection_def Magazine_create_instance_eq)
  from assms h have "find (\<lambda>x. m_name x = m_name m) (magazines d) = Some m"
    by (simp add: keys_ok_def find_by_key)
  with h b show "Magazine_find_by_name (m_name m) d = Inl ValueError"
    by (simp add: Magazine_find_by_name_def get_connection_def Magazine_create_instance_eq)
  from h have "instances Magazine_create_instance (magazines d) = Inl ValueError"
    by (intro instances_Inl [of m]) (simp_all add: Magazine_create_instance_eq)
  then show "Magazine_get_all d = Inl ValueError"
    by (simp add: Magazine_get_all_def get_connection_def)
next
  assume h: "t \<in> set (articles d) \<and> \<not> valid_article_row t"
  with assms have b: "in_int64 (r_id t) \<and> utf8_ok (r_title t)" by (simp add: keys_ok_article)
  from assms h have "find (\<lambda>x. r_id x = r_id t) (articles d) = Some t"
    by (simp add: keys_ok_def find_by_key)
  with h b show "Article_find_by_id (r_id t) d = Inl ValueError"
    by (simp add: Article_find_by_id_def get_connection_def Article_create_instance_eq)
  from h obtain x where x: "find (\<lambda>x. r_title x = r_title t) (articles d) = Some x"
      "r_title x = r_title t"
    using find_same_field [of t "articles d" r_title] by blast
  with h have "\<not> valid_article_row x" by (simp add: valid_article_row_def)
  with x b show "Article_find_by_title (r_title t) d = Inl ValueError"
    by (simp add: Article_find_by_title_def get_connection_def Article_create_instance_eq)
  from h have "instances Article_create_instance (articles d) = Inl ValueError"
    by (intro instances_Inl [of t]) (simp_all add: Article_create_instance_eq)
  then show "Article_get_all d = Inl ValueError"
    by (simp add: Article_get_all_def get_connection_def)
qed

theorem finders_reject_invalid_rows_witness:
  "keys_ok invalid_db \<and>
   \<lparr>a_id = 2, a_name = str ''''\<rparr> \<in> set (authors invalid_db) \<and>
   \<not> valid_author_row \<lparr>a_id = 2, a_name = str ''''\<rparr> \<and>
   Author_find_by_id 2 invalid_db = Inl ValueError \<and>
   Author_find_by_name (str '''') invalid_db = Inl ValueError \<and>
   Author_get_all invalid_db = Inl ValueError \<and>
   \<lparr>m_id = 1, m_name = str ''a'', m_category = str ''Category''\<rparr> \<in> set (magazines invalid_db) \<and>
   \<not> valid_magazine_row \<lparr>m_id = 1, m_name = str ''a'', m_category = str ''Category''\<rparr> \<and>
   Magazine_find_by_id 1 invalid_db = Inl ValueError \<and>
   Magazine_find_by_name (str ''a'') invalid_db = Inl ValueError \<and>
   Magazine_get_all invalid_db = Inl ValueError \<and>
   \<lparr>r_id = 1, r_title = str '''', r_author_id = 1, r_magazine_id = 1\<rparr> \<in> set (articles invalid_db) \<and>
   \<not> valid_article_row \<lparr>r_id = 1, r_title = str '''', r_author_id = 1, r_magazine_id = 1\<rparr> \<and>
   Article_find_by_id 1 invalid_db = Inl ValueError \<and>
   Article_find_by_title (str '''') invalid_db = Inl ValueError \<and>
   Article_get_all invalid_db = Inl ValueError"
proof -
  have k: "keys_ok invalid_db"
    by (simp add: keys_ok_def seq_ok_def in_int64_def invalid_db_def john_def tech_today_def)
  have a: "\<lparr>a_id = 2, a_name = str ''''\<rparr> \<in> set (authors invalid_db) \<and>
      \<not> valid_author_row \<lparr>a_id = 2, a_name = str ''''\<rparr>"
    by (simp add: invalid_db_def valid_author_row_def valid_author_name_def)
  have m: "\<lparr>m_id = 1, m_name = str ''a'', m_category = str ''Category''\<rparr> \<in> set (magazines invalid_db) \<and>
      \<not> valid_magazine_row \<lparr>m_id = 1, m_name = str ''a'', m_category = str ''Category''\<rparr>"
    by (simp add: invalid_db_def valid_magazine_row_def valid_magazine_name_def)
  have t: "\<lparr>r_id = 1, r_title = str '''', r_author_id = 1, r_magazine_id = 1\<rparr>
        \<in> set (articles invalid_db) \<and>
      \<not> valid_article_row \<lparr>r_id = 1, r_title = str '''', r_author_id = 1, r_magazine_id = 1\<rparr>"
    by (simp add: invalid_db_def valid_article_row_def valid_title_def)
  show ?thesis
    using k a m t
      finders_reject_invalid_rows [OF k, of "\<lparr>a_id = 2, a_name = str ''''\<rparr>"
        "\<lparr>m_id = 1, m_name = str ''a'', m_category = str ''Category''\<rparr>"
        "\<lparr>r_id = 1, r_title = str '''', r_author_id = 1, r_magazine_id = 1\<rparr>"]
    by simp
qed

section \<open>Creating and finding again\<close>

lemma max_rowid_ge: "x \<in> set ids \<Longrightarrow> x \<le> max_rowid ids"
  by (induction ids) auto

lemma max_rowid_mem: "ids \<noteq> [] \<Longrightarrow> max_rowid ids \<in> set ids"
  by (induction ids) (auto simp: max_def)

lemma new_rowid_fresh:
  assumes "room seq ids" and "list_all in_int64 ids" and "seq_ok seq"
  shows "\<exists>i. new_rowid seq ids = Inr i \<and> in_int64 i \<and> (\<forall>x \<in> set ids. x \<noteq> i)"
proof -
  define v where "v = (if ids = [] then 1 else max_rowid ids + 1)"
  define i where "i = (case seq of None \<Rightarrow> v | Some n \<Rightarrow> max v (n + 1))"
  from assms(1) have new: "new_rowid seq ids = Inr i"
    unfolding i_def v_def by (simp add: new_rowid_def Let_def)
  have above: "x < v" if "x \<in> set ids" for x
    using max_rowid_ge [OF that] that by (auto simp: v_def)
  have v_le_i: "v \<le> i"
    by (cases seq) (simp_all add: i_def)
  have v_range: "in_int64 v"
  proof (cases "ids = []")
    case True
    then show ?thesis by (simp add: v_def in_int64_def)
  next
    case False
    then have "max_rowid ids \<in> set ids" by (rule max_rowid_mem)
    with assms(2) have "in_int64 (max_rowid ids)" by (simp add: list_all_iff)
    with assms(1) False show ?thesis by (simp add: v_def in_int64_def room_def)
  qed
  have i_range: "in_int64 i"
  proof (cases seq)
    case None
    with v_range show ?thesis by (simp add: i_def)
  next
    case (Some n)
    with assms(1,3) have "- (2 ^ 63) \<le> n \<and> n < 2 ^ 63 - 1"
      by (simp add: room_def seq_ok_def in_int64_def)
    with v_range Some show ?thesis by (simp add: i_def in_int64_def max_def)
  qed
  from above v_le_i have "\<forall>x \<in> set ids. x \<noteq> i" by fastforce
  with new i_range show ?thesis by blast
qed

lemma find_appended:
  "\<forall>x \<in> set rows. \<not> P x \<Longrightarrow> P y \<Longrightarrow> find P (rows @ [y]) = Some y"
  by (induction rows) auto

lemma Author_create_valid:
  assumes "valid_author_name s" and "utf8_ok s" and "s \<notin> set (map a_name (authors d))"
    and "new_rowid (authors_seq d) (map a_id (authors d)) = Inr i"
  shows "Author_create (PyStr s) d =
     (Inr (Some \<lparr>author_name = s, author_id = Some i\<rparr>),
      d\<lparr>authors := authors d @ [\<lparr>a_id = i, a_name = s\<rparr>],
        authors_seq := next_seq (authors_seq d) i\<rparr>)"
  using assms
  by (simp add: Author_create_def insert_author_def get_connection_def commit_def
      close_connection_def valid_author_name_def Suc_le_eq Let_def)

lemma Magazine_create_valid:
  assumes "valid_magazine_name s" and "valid_category c" and "utf8_ok s" and "utf8_ok c"
    and "s \<notin> set (map m_name (magazines d))"
    and "new_rowid (magazines_seq d) (map m_id (magazines d)) = Inr i"
  shows "Magazine_create (PyStr s) (PyStr c) d =
     (Inr (Some \<lparr>magazine_name = s, magazine_category = c, magazine_id = Some i\<rparr>),
      d\<lparr>magazines := magazines d @ [\<lparr>m_id = i, m_name = s, m_category = c\<rparr>],
        magazines_seq := next_seq (magazines_seq d) i\<rparr>)"
  using assms
  by (simp add: Magazine_create_def insert_magazine_def get_connection_def commit_def
      close_connection_def valid_magazine_name_def valid_category_def Suc_le_eq Let_def)

lemma Article_create_valid:
  assumes "valid_title s" and "utf8_ok s" and "in_int64 a" and "in_int64 m"
    and "new_rowid (articles_seq d) (map r_id (articles d)) = Inr i"
  shows "Article_create (PyStr s) (Some a) (Some m) d =
     (Inr (Some \<lparr>article_title = s, article_author_id = Some a, article_magazine_id = Some m,
                 article_id = Some i\<rparr>),
      d\<lparr>articles := articles d @
         [\<lparr>r_id = i, r_title = s, r_author_id = a, r_magazine_id = m\<rparr>],
        articles_seq := next_seq (articles_seq d) i\<rparr>)"
  using assms
  by (simp add: Article_create_def insert_article_def get_connection_def commit_def
      close_connection_def valid_title_def Suc_le_eq Let_def)

lemma references_in_range:
  assumes "keys_ok d" and "references_ok d a m"
  shows "in_int64 a \<and> in_int64 m"
  using assms by (auto simp: keys_ok_def references_ok_def list_all_iff list_ex_iff)

text \<open>
  Claim C4, as amended. The claim is that \<open>create\<close> succeeds for every valid name.
  It does not for a name that is stored already, as the names of authors and of
  magazines are \<open>UNIQUE\<close>, and it does not for a name that holds a surrogate, which
  cannot be bound: in both cases the \<open>INSERT\<close> raises and \<open>create\<close> returns \<open>None\<close>.
  For a valid name that has a UTF-8 encoding and that no stored author has, in a table
  with an id left, \<open>Author.create\<close> returns an instance with that name and a new id, and
  \<open>Author.find_by_id\<close> on that id, in the database \<open>create\<close> leaves, returns the same
  instance. The same holds of \<open>Magazine\<close> for such a name and a valid category with a
  UTF-8 encoding, and of \<open>Article\<close> for a valid title with a UTF-8 encoding and foreign
  keys of stored rows.
\<close>

theorem create_find_by_id_roundtrip:
  assumes "keys_ok d"
  shows
    "(valid_author_name s1 \<and> utf8_ok s1 \<and> s1 \<notin> set (map a_name (authors d)) \<and>
      room (authors_seq d) (map a_id (authors d)) \<longrightarrow>
        (\<exists>i. fst (Author_create (PyStr s1) d) =
               Inr (Some \<lparr>author_name = s1, author_id = Some i\<rparr>) \<and>
             Author_find_by_id i (snd (Author_create (PyStr s1) d)) =
               Inr (Some \<lparr>author_name = s1, author_id = Some i\<rparr>))) \<and>
     (valid_magazine_name s2 \<and> valid_category c \<and> utf8_ok s2 \<and> utf8_ok c \<and>
      s2 \<notin> set (map m_name (magazines d)) \<and>
      room (magazines_seq d) (map m_id (magazines d)) \<longrightarrow>
        (\<exists>i. fst (Magazine_create (PyStr s2) (PyStr c) d) =
               Inr (Some \<lparr>magazine_name = s2, magazine_category = c, magazine_id = Some i\<rparr>) \<and>
             Magazine_find_by_id i (snd (Magazine_create (PyStr s2) (PyStr c) d)) =
               Inr (Some \<lparr>magazine_name = s2, magazine_category = c, magazine_id = Some i\<rparr>))) \<and>
     (valid_title s3 \<and> utf8_ok s3 \<and> references_ok d a m \<and>
      room (articles_seq d) (map r_id (articles d)) \<longrightarrow>
        (\<exists>i. fst (Article_create (PyStr s3) (Some a) (Some m) d) =
               Inr (Some \<lparr>article_title = s3, article_author_id = Some a,
                          article_magazine_id = Some m, article_id = Some i\<rparr>) \<and>
             Article_find_by_id i (snd (Article_create (PyStr s3) (Some a) (Some m) d)) =
               Inr (Some \<lparr>article_title = s3, article_author_id = Some a,
                          article_magazine_id = Some m, article_id = Some i\<rparr>)))"
proof (intro conjI impI)
  assume h: "valid_author_name s1 \<and> utf8_ok s1 \<and> s1 \<notin> set (map a_name (authors d)) \<and>
      room (authors_seq d) (map a_id (authors d))"
  from assms have "list_all in_int64 (map a_id (authors d))" "seq_ok (authors_seq d)"
    by (simp_all add: keys_ok_def list_all_iff)
  with h obtain i where i: "new_rowid (authors_seq d) (map a_id (authors d)) = Inr i"
      "in_int64 i" "\<forall>x \<in> set (map a_id (authors d)). x \<noteq> i"
    using new_rowid_fresh [of "authors_seq d" "map a_id (authors d)"] by blast
  from h i(1) have c: "Author_create (PyStr s1) d =
     (Inr (Some \<lparr>author_name = s1, author_id = Some i\<rparr>),
      d\<lparr>authors := authors d @ [\<lparr>a_id = i, a_name = s1\<rparr>],
        authors_seq := next_seq (authors_seq d) i\<rparr>)"
    by (simp add: Author_create_valid)
  from i(3) have "find (\<lambda>r. a_id r = i) (authors d @ [\<lparr>a_id = i, a_name = s1\<rparr>])
      = Some \<lparr>a_id = i, a_name = s1\<rparr>"
    by (intro find_appended) auto
  with h i(2) have "Author_find_by_id i
      (d\<lparr>authors := authors d @ [\<lparr>a_id = i, a_name = s1\<rparr>],
         authors_seq := next_seq (authors_seq d) i\<rparr>)
      = Inr (Some \<lparr>author_name = s1, author_id = Some i\<rparr>)"
    by (simp add: Author_find_by_id_def get_connection_def Author_create_instance_def
        valid_author_name_def Suc_le_eq)
  with c show "\<exists>i. fst (Author_create (PyStr s1) d) =
        Inr (Some \<lparr>author_name = s1, author_id = Some i\<rparr>) \<and>
      Author_find_by_id i (snd (Author_create (PyStr s1) d)) =
        Inr (Some \<lparr>author_name = s1, author_id = Some i\<rparr>)"
    by simp
next
  assume h: "valid_magazine_name s2 \<and> valid_category c \<and> utf8_ok s2 \<and> utf8_ok c \<and>
      s2 \<notin> set (map m_name (magazines d)) \<and>
      room (magazines_seq d) (map m_id (magazines d))"
  from assms have "list_all in_int64 (map m_id (magazines d))" "seq_ok (magazines_seq d)"
    by (simp_all add: keys_ok_def list_all_iff)
  with h obtain i where i: "new_rowid (magazines_seq d) (map m_id (magazines d)) = Inr i"
      "in_int64 i" "\<forall>x \<in> set (map m_id (magazines d)). x \<noteq> i"
    using new_rowid_fresh [of "magazines_seq d" "map m_id (magazines d)"] by blast
  from h i(1) have c: "Magazine_create (PyStr s2) (PyStr c) d =
     (Inr (Some \<lparr>magazine_name = s2, magazine_category = c, magazine_id = Some i\<rparr>),
      d\<lparr>magazines := magazines d @ [\<lparr>m_id = i, m_name = s2, m_category = c\<rparr>],
        magazines_seq := next_seq (magazines_seq d) i\<rparr>)"
    by (simp add: Magazine_create_valid)
  from i(3) have "find (\<lambda>r. m_id r = i)
      (magazines d @ [\<lparr>m_id = i, m_name = s2, m_category = c\<rparr>])
      = Some \<lparr>m_id = i, m_name = s2, m_category = c\<rparr>"
    by (intro find_appended) auto
  with h i(2) have "Magazine_find_by_id i
      (d\<lparr>magazines := magazines d @ [\<lparr>m_id = i, m_name = s2, m_category = c\<rparr>],
         magazines_seq := next_seq (magazines_seq d) i\<rparr>)
      = Inr (Some \<lparr>magazine_name = s2, magazine_category = c, magazine_id = Some i\<rparr>)"
    by (simp add: Magazine_find_by_id_def get_connection_def Magazine_create_instance_def
        valid_magazine_name_def valid_category_def Suc_le_eq)
  with c show "\<exists>i. fst (Magazine_create (PyStr s2) (PyStr c) d) =
        Inr (Some \<lparr>magazine_name = s2, magazine_category = c, magazine_id = Some i\<rparr>) \<and>
      Magazine_find_by_id i (snd (Magazine_create (PyStr s2) (PyStr c) d)) =
        Inr (Some \<lparr>magazine_name = s2, magazine_category = c, magazine_id = Some i\<rparr>)"
    by simp
next
  assume h: "valid_title s3 \<and> utf8_ok s3 \<and> references_ok d a m \<and>
      room (articles_seq d) (map r_id (articles d))"
  then have "references_ok d a m" by simp
  with assms have r: "in_int64 a \<and> in_int64 m" by (rule references_in_range)
  from assms have "list_all in_int64 (map r_id (articles d))" "seq_ok (articles_seq d)"
    by (simp_all add: keys_ok_def list_all_iff)
  with h obtain i where i: "new_rowid (articles_seq d) (map r_id (articles d)) = Inr i"
      "in_int64 i" "\<forall>x \<in> set (map r_id (articles d)). x \<noteq> i"
    using new_rowid_fresh [of "articles_seq d" "map r_id (articles d)"] by blast
  from h r i(1) have c: "Article_create (PyStr s3) (Some a) (Some m) d =
     (Inr (Some \<lparr>article_title = s3, article_author_id = Some a, article_magazine_id = Some m,
                 article_id = Some i\<rparr>),
      d\<lparr>articles := articles d @
         [\<lparr>r_id = i, r_title = s3, r_author_id = a, r_magazine_id = m\<rparr>],
        articles_seq := next_seq (articles_seq d) i\<rparr>)"
    by (simp add: Article_create_valid)
  from i(3) have "find (\<lambda>r. r_id r = i)
      (articles d @ [\<lparr>r_id = i, r_title = s3, r_author_id = a, r_magazine_id = m\<rparr>])
      = Some \<lparr>r_id = i, r_title = s3, r_author_id = a, r_magazine_id = m\<rparr>"
    by (intro find_appended) auto
  with h i(2) have "Article_find_by_id i
      (d\<lparr>articles := articles d @
         [\<lparr>r_id = i, r_title = s3, r_author_id = a, r_magazine_id = m\<rparr>],
         articles_seq := next_seq (articles_seq d) i\<rparr>)
      = Inr (Some \<lparr>article_title = s3, article_author_id = Some a, article_magazine_id = Some m,
                 article_id = Some i\<rparr>)"
    by (simp add: Article_find_by_id_def get_connection_def Article_create_instance_def
        valid_title_def Suc_le_eq)
  with c show "\<exists>i. fst (Article_create (PyStr s3) (Some a) (Some m) d) =
        Inr (Some \<lparr>article_title = s3, article_author_id = Some a,
                   article_magazine_id = Some m, article_id = Some i\<rparr>) \<and>
      Article_find_by_id i (snd (Article_create (PyStr s3) (Some a) (Some m) d)) =
        Inr (Some \<lparr>article_title = s3, article_author_id = Some a,
                   article_magazine_id = Some m, article_id = Some i\<rparr>)"
    by simp
qed

theorem create_find_by_id_roundtrip_witness:
  "keys_ok sample_db \<and>
   valid_author_name (str ''Bob The Builder'') \<and> utf8_ok (str ''Bob The Builder'') \<and>
   str ''Bob The Builder'' \<notin> set (map a_name (authors sample_db)) \<and>
   room (authors_seq sample_db) (map a_id (authors sample_db)) \<and>
   (\<exists>i. fst (Author_create (PyStr (str ''Bob The Builder'')) sample_db) =
          Inr (Some \<lparr>author_name = str ''Bob The Builder'', author_id = Some i\<rparr>) \<and>
        Author_find_by_id i (snd (Author_create (PyStr (str ''Bob The Builder'')) sample_db)) =
          Inr (Some \<lparr>author_name = str ''Bob The Builder'', author_id = Some i\<rparr>)) \<and>
   valid_magazine_name (str ''Science Now'') \<and> valid_category (str ''Science'') \<and>
   utf8_ok (str ''Science Now'') \<and> utf8_ok (str ''Science'') \<and>
   str ''Science Now'' \<notin> set (map m_name (magazines sample_db)) \<and>
   room (magazines_seq sample_db) (map m_id (magazines sample_db)) \<and>
   (\<exists>i. fst (Magazine_create (PyStr (str ''Science Now'')) (PyStr (str ''Science'')) sample_db) =
          Inr (Some \<lparr>magazine_name = str ''Science Now'', magazine_category = str ''Science'',
                     magazine_id = Some i\<rparr>) \<and>
        Magazine_find_by_id i
          (snd (Magazine_create (PyStr (str ''Science Now'')) (PyStr (str ''Science'')) sample_db)) =
          Inr (Some \<lparr>magazine_name = str ''Science Now'', magazine_category = str ''Science'',
                     magazine_id = Some i\<rparr>)) \<and>
   valid_title (str ''AI Ethics'') \<and> utf8_ok (str ''AI Ethics'') \<and>
   references_ok sample_db 1 1 \<and>
   room (articles_seq sample_db) (map r_id (articles sample_db)) \<and>
   (\<exists>i. fst (Article_create (PyStr (str ''AI Ethics'')) (Some 1) (Some 1) sample_db) =
          Inr (Some \<lparr>article_title = str ''AI Ethics'', article_author_id = Some 1,
                     article_magazine_id = Some 1, article_id = Some i\<rparr>) \<and>
        Article_find_by_id i
          (snd (Article_create (PyStr (str ''AI Ethics'')) (Some 1) (Some 1) sample_db)) =
          Inr (Some \<lparr>article_title = str ''AI Ethics'', article_author_id = Some 1,
                     article_magazine_id = Some 1, article_id = Some i\<rparr>))"
proof -
  have a: "valid_author_name (str ''Bob The Builder'') \<and> utf8_ok (str ''Bob The Builder'') \<and>
      str ''Bob The Builder'' \<notin> set (map a_name (authors sample_db)) \<and>
      room (authors_seq sample_db) (map a_id (authors sample_db))"
    by (simp add: valid_author_name_def sample_db_def john_def jane_def room_def)
  have m: "valid_magazine_name (str ''Science Now'') \<and> valid_category (str ''Science'') \<and>
      utf8_ok (str ''Science Now'') \<and> utf8_ok (str ''Science'') \<and>
      str ''Science Now'' \<notin> set (map m_name (magazines sample_db)) \<and>
      room (magazines_seq sample_db) (map m_id (magazines sample_db))"
    by (simp add: valid_magazine_name_def valid_category_def sample_db_def tech_today_def
        fashion_weekly_def room_def)
  have t: "valid_title (str ''AI Ethics'') \<and> utf8_ok (str ''AI Ethics'') \<and>
      references_ok sample_db 1 1 \<and>
      room (articles_seq sample_db) (map r_id (articles sample_db))"
    by (simp add: valid_title_def references_ok_def sample_db_def john_def tech_today_def
        room_def)
  show ?thesis
    using keys_ok_sample_db a m t
      create_find_by_id_roundtrip [OF keys_ok_sample_db, of "str ''Bob The Builder''"
        "str ''Science Now''" "str ''Science''" "str ''AI Ethics''" 1 1]
    by blast
qed

text \<open>
  The claim as stated fails on a name that is in use: \<open>John Doe\<close> is a valid name, an
  author of that name is stored, and \<open>Author.create\<close> returns \<open>None\<close> and stores nothing.
  So does \<open>Magazine.create\<close> for \<open>Tech Today\<close>. It fails as well on the name that
  consists of the one surrogate \<open>0xD800\<close>: its length is valid, and \<open>Author.create\<close> on
  the empty database returns \<open>None\<close> and stores nothing.
\<close>

theorem create_duplicate_name_counterexample:
  "keys_ok sample_db \<and> valid_author_name (str ''John Doe'') \<and>
   fst (Author_create (PyStr (str ''John Doe'')) sample_db) = Inr None \<and>
   snd (Author_create (PyStr (str ''John Doe'')) sample_db) = sample_db \<and>
   valid_magazine_name (str ''Tech Today'') \<and> valid_category (str ''Technology'') \<and>
   fst (Magazine_create (PyStr (str ''Tech Today'')) (PyStr (str ''Technology'')) sample_db)
     = Inr None \<and>
   valid_author_name [0xD800] \<and>
   fst (Author_create (PyStr [0xD800]) empty_db) = Inr None \<and>
   snd (Author_create (PyStr [0xD800]) empty_db) = empty_db"
  using keys_ok_sample_db
  by (simp add: valid_author_name_def valid_magazine_name_def valid_category_def
      Author_create_def Magazine_create_def insert_author_def insert_magazine_def
      new_rowid_def room_def utf8_ok_def
      get_connection_def rollback_def close_connection_def sample_db_def empty_db_def
      john_def jane_def tech_today_def fashion_weekly_def)

section \<open>The top publisher\<close>

lemma left_join_Cons:
  "left_join (x # xs) ys on = left_join [x] ys on @ left_join xs ys on"
  by (simp add: left_join_def)

lemma left_join_Nil: "left_join [] ys on = []"
  by (simp add: left_join_def)

lemma left_join_single_fst: "r \<in> set (left_join [x] ys on) \<Longrightarrow> fst r = x"
  by (auto simp: left_join_def split: list.splits)

lemma left_join_single_nonempty: "left_join [x] ys on \<noteq> []"
  by (simp add: left_join_def split: list.splits)

lemma left_join_single_count:
  "length (filter (\<lambda>(m, a). a \<noteq> None) (left_join [x] ys on)) = length (filter (on x) ys)"
proof (cases "filter (on x) ys")
  case Nil
  then show ?thesis by (simp add: left_join_def)
next
  case (Cons y zs)
  have "filter (\<lambda>(m, a). a \<noteq> None) (map (\<lambda>z. (x, Some z)) (y # zs)) = map (\<lambda>z. (x, Some z)) (y # zs)"
    by (rule filter_True) auto
  with Cons show ?thesis by (simp add: left_join_def)
qed

lemma left_join_other_key:
  "\<forall>x \<in> set xs. key x \<noteq> k \<Longrightarrow> filter (\<lambda>(m, a). key m = k) (left_join xs ys on) = []"
proof (induction xs)
  case Nil
  then show ?case by (simp add: left_join_Nil)
next
  case (Cons x xs)
  have "filter (\<lambda>(m, a). key m = k) (left_join [x] ys on) = []"
    using Cons.prems by (auto simp: filter_empty_conv dest: left_join_single_fst)
  with Cons show ?case by (simp add: left_join_Cons [of x xs])
qed

lemma left_join_group:
  "distinct (map key xs) \<Longrightarrow> x \<in> set xs \<Longrightarrow>
     filter (\<lambda>(m, a). key m = key x) (left_join xs ys on) = left_join [x] ys on"
proof (induction xs)
  case Nil
  then show ?case by simp
next
  case (Cons y xs)
  show ?case
  proof (cases "x = y")
    case True
    have "filter (\<lambda>(m, a). key m = key x) (left_join [y] ys on) = left_join [y] ys on"
      using True by (intro filter_True) (auto dest: left_join_single_fst)
    moreover have "filter (\<lambda>(m, a). key m = key x) (left_join xs ys on) = []"
      using Cons.prems True by (intro left_join_other_key) (auto simp: image_iff)
    ultimately show ?thesis using True by (simp add: left_join_Cons [of y xs])
  next
    case False
    with Cons.prems have x: "x \<in> set xs" by simp
    with Cons.prems have "key y \<noteq> key x" by (auto simp: image_iff)
    then have "filter (\<lambda>(m, a). key m = key x) (left_join [y] ys on) = []"
      by (auto simp: filter_empty_conv dest: left_join_single_fst)
    with Cons x show ?thesis by (simp add: left_join_Cons [of y xs])
  qed
qed

lemma left_join_keys: "set (map (\<lambda>(m, a). key m) (left_join xs ys on)) = key ` set xs"
proof (induction xs)
  case Nil
  then show ?case by (simp add: left_join_Nil)
next
  case (Cons x xs)
  have "set (map (\<lambda>(m, a). key m) (left_join [x] ys on)) = {key x}"
    by (auto simp: left_join_def image_iff split: list.splits)
  with Cons show ?case by (simp add: left_join_Cons [of x xs])
qed

lemma set_group_by: "set (group_by key rows) = (\<lambda>k. filter (\<lambda>r. key r = k) rows) ` key ` set rows"
  by (simp add: group_by_def)

lemma sort_key_head:
  "sort_key f xs = y # ys \<Longrightarrow> y \<in> set xs \<and> (\<forall>x \<in> set xs. f y \<le> f x)"
proof -
  assume h: "sort_key f xs = y # ys"
  have "sorted (map f (sort_key f xs))" by (rule sorted_sort_key)
  with h have "\<forall>z \<in> set ys. f y \<le> f z" by simp
  moreover have "set (y # ys) = set xs" using h set_sort [of f xs] by simp
  ultimately show ?thesis by auto
qed

lemma top_publisher_counted:
  assumes "distinct (map m_id ms)"
  shows "set (concat (map (\<lambda>g. case g of
                 [] \<Rightarrow> []
               | (m, a) # _ \<Rightarrow> [(m, length (filter (\<lambda>(m, a). a \<noteq> None) g))])
            (group_by (\<lambda>(m, a). m_id m)
               (left_join ms arts (\<lambda>m a. m_id m = r_magazine_id a)))))
         = (\<lambda>m. (m, length (filter (\<lambda>a. m_id m = r_magazine_id a) arts))) ` set ms"
    (is "set (concat (map ?summary (group_by ?key ?joined))) = ?f ` set ms")
proof -
  have groups: "set (group_by ?key ?joined) = (\<lambda>m. left_join [m] arts (\<lambda>m a. m_id m = r_magazine_id a)) ` set ms"
  proof -
    have "?key ` set ?joined = m_id ` set ms"
      using left_join_keys [of m_id ms arts "\<lambda>m a. m_id m = r_magazine_id a"] by simp
    then have "set (group_by ?key ?joined) = (\<lambda>k. filter (\<lambda>r. ?key r = k) ?joined) ` m_id ` set ms"
      by (simp add: set_group_by)
    also have "\<dots> = (\<lambda>m. filter (\<lambda>r. ?key r = m_id m) ?joined) ` set ms"
      by (simp add: image_image)
    also have "\<dots> = (\<lambda>m. left_join [m] arts (\<lambda>m a. m_id m = r_magazine_id a)) ` set ms"
    proof (rule image_cong)
      fix m assume "m \<in> set ms"
      with assms have "filter (\<lambda>(m', a). m_id m' = m_id m) ?joined
          = left_join [m] arts (\<lambda>m a. m_id m = r_magazine_id a)"
        by (rule left_join_group)
      moreover have "(\<lambda>r. ?key r = m_id m) = (\<lambda>(m', a). m_id m' = m_id m)" by auto
      ultimately show "filter (\<lambda>r. ?key r = m_id m) ?joined
          = left_join [m] arts (\<lambda>m a. m_id m = r_magazine_id a)" by simp
    qed simp
    finally show ?thesis .
  qed
  have summary: "?summary (left_join [m] arts (\<lambda>m a. m_id m = r_magazine_id a)) = [?f m]" for m
  proof (cases "left_join [m] arts (\<lambda>m a. m_id m = r_magazine_id a)")
    case Nil
    with left_join_single_nonempty [of m arts "\<lambda>m a. m_id m = r_magazine_id a"]
    show ?thesis by simp
  next
    case (Cons r rs)
    then have "r \<in> set (left_join [m] arts (\<lambda>m a. m_id m = r_magazine_id a))" by simp
    then have "fst r = m" by (rule left_join_single_fst)
    moreover have "length (filter (\<lambda>(m, a). a \<noteq> None) (r # rs))
        = length (filter (\<lambda>a. m_id m = r_magazine_id a) arts)"
      using left_join_single_count [of m arts "\<lambda>m a. m_id m = r_magazine_id a"] Cons by simp
    ultimately show ?thesis using Cons by (cases r) simp
  qed
  have "set (concat (map ?summary (group_by ?key ?joined)))
      = (\<Union>g \<in> set (group_by ?key ?joined). set (?summary g))" by simp
  also have "\<dots> = (\<Union>m \<in> set ms. set (?summary (left_join [m] arts (\<lambda>m a. m_id m = r_magazine_id a))))"
    by (simp only: groups UN_simps image_image) 
  also have "\<dots> = ?f ` set ms" by (simp only: summary) auto
  finally show ?thesis .
qed

lemma top_publisher_selects:
  assumes "distinct (map m_id (magazines d))"
  shows "(magazines d = [] \<longrightarrow> Magazine_top_publisher d = Inr None) \<and>
         (magazines d \<noteq> [] \<longrightarrow>
            (\<exists>m \<in> set (magazines d).
               (\<forall>m' \<in> set (magazines d).
                  article_count d (m_id m') \<le> article_count d (m_id m)) \<and>
               Magazine_top_publisher d =
                 (if valid_magazine_row m then Inr (Some (magazine_of m)) else Inl ValueError)))"
proof -
  define counted where "counted =
    concat (map (\<lambda>g. case g of
                 [] \<Rightarrow> []
               | (m, a) # _ \<Rightarrow> [(m, length (filter (\<lambda>(m, a). a \<noteq> None) g))])
            (group_by (\<lambda>(m, a). m_id m)
               (left_join (magazines d) (articles d) (\<lambda>m a. m_id m = r_magazine_id a))))"
  define ordered where "ordered = sort_key (\<lambda>(m, n). - int n) counted"
  have top: "Magazine_top_publisher d =
      (case ordered of
         [] \<Rightarrow> Inr None
       | (m, n) # _ \<Rightarrow> map_sum id Some (Magazine_create_instance m))"
    by (simp add: Magazine_top_publisher_def Let_def counted_def ordered_def)
  have count: "length (filter (\<lambda>a. m_id m = r_magazine_id a) (articles d)) = article_count d (m_id m)"
    for m
    by (simp add: article_count_def eq_commute)
  from assms have counted: "set counted = (\<lambda>m. (m, article_count d (m_id m))) ` set (magazines d)"
    unfolding counted_def by (simp only: top_publisher_counted count)
  have ordered: "set ordered = set counted" by (simp add: ordered_def)
  show ?thesis
  proof (cases ordered)
    case Nil
    with ordered counted have "magazines d = []" by simp
    with Nil top show ?thesis by simp
  next
    case (Cons r rest)
    obtain m n where r: "r = (m, n)" by (cases r)
    from Cons r ordered_def have s: "sort_key (\<lambda>(m, n). - int n) counted = (m, n) # rest"
      by simp
    from sort_key_head [OF s]
    have mem: "(m, n) \<in> set counted" and least: "\<forall>x \<in> set counted. - int n \<le> - int (snd x)"
      by (auto simp: case_prod_beta)
    from mem counted have m: "m \<in> set (magazines d)" and n: "n = article_count d (m_id m)"
      by auto
    have max: "\<forall>m' \<in> set (magazines d). article_count d (m_id m') \<le> article_count d (m_id m)"
    proof
      fix m' assume "m' \<in> set (magazines d)"
      with counted have "(m', article_count d (m_id m')) \<in> set counted" by simp
      with least have "- int n \<le> - int (article_count d (m_id m'))" by fastforce
      with n show "article_count d (m_id m') \<le> article_count d (m_id m)" by simp
    qed
    from Cons r top have "Magazine_top_publisher d = map_sum id Some (Magazine_create_instance m)"
      by simp
    then have res: "Magazine_top_publisher d =
        (if valid_magazine_row m then Inr (Some (magazine_of m)) else Inl ValueError)"
      by (simp add: Magazine_create_instance_eq)
    from m have "magazines d \<noteq> []" by auto
    with m max res show ?thesis by blast
  qed
qed

lemma top_magazines_iff:
  "m \<in> set (top_magazines d) \<longleftrightarrow>
     m \<in> set (magazines d) \<and>
     (\<forall>m' \<in> set (magazines d). article_count d (m_id m') \<le> article_count d (m_id m))"
  by (simp add: top_magazines_def list_all_iff)

text \<open>
  Claim C6, as amended. \<open>Magazine.top_publisher\<close> returns \<open>None\<close> exactly when no
  magazine is stored. When magazines are stored, the query selects one of them whose
  number of articles no other magazine exceeds (zero, when no article is stored), and
  the method returns it if its row satisfies the constraints of a magazine, and raises
  ValueError if it does not. So it returns a magazine of maximal count whenever the rows
  of all magazines of maximal count satisfy the constraints.
\<close>

theorem top_publisher_maximal:
  assumes "keys_ok d"
  shows "(Magazine_top_publisher d = Inr None \<longleftrightarrow> magazines d = []) \<and>
         (magazines d \<noteq> [] \<longrightarrow>
            (\<exists>m \<in> set (top_magazines d).
               Magazine_top_publisher d =
                 (if valid_magazine_row m then Inr (Some (magazine_of m)) else Inl ValueError))) \<and>
         (magazines d \<noteq> [] \<and> list_all valid_magazine_row (top_magazines d) \<longrightarrow>
            (\<exists>m \<in> set (top_magazines d). Magazine_top_publisher d = Inr (Some (magazine_of m))))"
proof -
  from assms have dist: "distinct (map m_id (magazines d))" by (simp add: keys_ok_def)
  note sel = top_publisher_selects [OF dist]
  have sel2: "\<exists>m \<in> set (top_magazines d).
      Magazine_top_publisher d =
        (if valid_magazine_row m then Inr (Some (magazine_of m)) else Inl ValueError)"
    if "magazines d \<noteq> []"
  proof -
    from sel that obtain m where m: "m \<in> set (magazines d)"
        "\<forall>m' \<in> set (magazines d). article_count d (m_id m') \<le> article_count d (m_id m)"
        "Magazine_top_publisher d =
           (if valid_magazine_row m then Inr (Some (magazine_of m)) else Inl ValueError)"
      by blast
    from m(1,2) have "m \<in> set (top_magazines d)" by (simp add: top_magazines_iff)
    with m(3) show ?thesis by blast
  qed
  have none: "Magazine_top_publisher d = Inr None \<longleftrightarrow> magazines d = []"
  proof
    assume n: "Magazine_top_publisher d = Inr None"
    show "magazines d = []"
    proof (rule ccontr)
      assume "magazines d \<noteq> []"
      from sel2 [OF this] obtain m where
        "Magazine_top_publisher d =
           (if valid_magazine_row m then Inr (Some (magazine_of m)) else Inl ValueError)"
        by blast
      with n show False by (simp split: if_splits)
    qed
  next
    assume "magazines d = []"
    with sel show "Magazine_top_publisher d = Inr None" by simp
  qed
  have valid: "\<exists>m \<in> set (top_magazines d). Magazine_top_publisher d = Inr (Some (magazine_of m))"
    if "magazines d \<noteq> [] \<and> list_all valid_magazine_row (top_magazines d)"
  proof -
    from that sel2 obtain m where m: "m \<in> set (top_magazines d)"
        "Magazine_top_publisher d =
           (if valid_magazine_row m then Inr (Some (magazine_of m)) else Inl ValueError)"
      by blast
    from that m(1) have "valid_magazine_row m" by (simp add: list_all_iff)
    with m show ?thesis by auto
  qed
  from none sel2 valid show ?thesis by blast
qed

theorem top_publisher_maximal_witness:
  "keys_ok sample_db \<and> magazines sample_db \<noteq> [] \<and>
   top_magazines sample_db = [tech_today] \<and>
   list_all valid_magazine_row (top_magazines sample_db) \<and>
   Magazine_top_publisher sample_db = Inr (Some (magazine_of tech_today)) \<and>
   keys_ok (sample_db\<lparr>articles := []\<rparr>) \<and>
   list_all valid_magazine_row (top_magazines (sample_db\<lparr>articles := []\<rparr>)) \<and>
   (\<exists>m. Magazine_top_publisher (sample_db\<lparr>articles := []\<rparr>) = Inr (Some m)) \<and>
   keys_ok empty_db \<and> magazines empty_db = [] \<and> Magazine_top_publisher empty_db = Inr None"
proof -
  have k2: "keys_ok (sample_db\<lparr>articles := []\<rparr>)"
    by (simp add: keys_ok_def seq_ok_def in_int64_def sample_db_def john_def jane_def
        tech_today_def fashion_weekly_def)
  have k3: "keys_ok empty_db"
    by (simp add: keys_ok_def seq_ok_def in_int64_def empty_db_def)
  have ms: "magazines sample_db = [tech_today, fashion_weekly]"
    by (simp add: sample_db_def)
  have v1: "valid_magazine_row tech_today"
    by (simp add: tech_today_def valid_magazine_row_def valid_magazine_name_def
        valid_category_def)
  have v2: "valid_magazine_row fashion_weekly"
    by (simp add: fashion_weekly_def valid_magazine_row_def valid_magazine_name_def
        valid_category_def)
  have c1: "article_count sample_db (m_id tech_today) = 2"
    by (simp add: article_count_def sample_db_def tech_today_def)
  have c2: "article_count sample_db (m_id fashion_weekly) = 1"
    by (simp add: article_count_def sample_db_def fashion_weekly_def)
  have tops: "top_magazines sample_db = [tech_today]"
    by (simp add: top_magazines_def ms c1 c2)
  have la: "list_all valid_magazine_row (top_magazines sample_db)"
    using v1 by (simp add: tops)
  have ne: "magazines sample_db \<noteq> []" by (simp add: ms)
  from top_publisher_maximal [OF keys_ok_sample_db] ne la
  have "\<exists>m \<in> set (top_magazines sample_db).
      Magazine_top_publisher sample_db = Inr (Some (magazine_of m))"
    by blast
  then have r1: "Magazine_top_publisher sample_db = Inr (Some (magazine_of tech_today))"
    by (simp add: tops)
  have tops2: "top_magazines (sample_db\<lparr>articles := []\<rparr>) = [tech_today, fashion_weekly]"
    by (simp add: top_magazines_def article_count_def ms)
  have la2: "list_all valid_magazine_row (top_magazines (sample_db\<lparr>articles := []\<rparr>))"
    using v1 v2 by (simp add: tops2)
  have ne2: "magazines (sample_db\<lparr>articles := []\<rparr>) \<noteq> []" by (simp add: ms)
  from top_publisher_maximal [OF k2] ne2 la2
  have r2: "\<exists>m. Magazine_top_publisher (sample_db\<lparr>articles := []\<rparr>) = Inr (Some m)"
    by blast
  have e: "magazines empty_db = []" by (simp add: empty_db_def)
  with top_publisher_maximal [OF k3]
  have r3: "Magazine_top_publisher empty_db = Inr None" by blast
  from keys_ok_sample_db ne tops la r1 k2 la2 r2 k3 e r3 show ?thesis by blast
qed

text \<open>
  The claim as stated fails on the database that \<open>Magazine.create("a", "Category")\<close>
  leaves: a magazine is stored and no article is, and \<open>top_publisher\<close> raises
  ValueError where the claim has it return some magazine.
\<close>

lemma short_magazine_db_eq:
  "short_magazine_db =
     empty_db\<lparr>magazines := [\<lparr>m_id = 1, m_name = str ''a'', m_category = str ''Category''\<rparr>],
              magazines_seq := Some 1\<rparr>"
  by (simp add: short_magazine_db_def Magazine_create_def empty_db_def get_connection_def
      insert_magazine_def new_rowid_def room_def next_seq_def commit_def rollback_def
      close_connection_def)

theorem top_publisher_invalid_row_counterexample:
  "keys_ok short_magazine_db \<and> magazines short_magazine_db \<noteq> [] \<and>
   articles short_magazine_db = [] \<and>
   Magazine_top_publisher short_magazine_db = Inl ValueError"
proof -
  have ms: "magazines short_magazine_db =
      [\<lparr>m_id = 1, m_name = str ''a'', m_category = str ''Category''\<rparr>]"
    by (simp add: short_magazine_db_eq)
  have ar: "articles short_magazine_db = []"
    by (simp add: short_magazine_db_eq empty_db_def)
  have k: "keys_ok short_magazine_db"
    by (simp add: short_magazine_db_eq keys_ok_def seq_ok_def in_int64_def empty_db_def)
  have inv: "\<not> valid_magazine_row \<lparr>m_id = 1, m_name = str ''a'', m_category = str ''Category''\<rparr>"
    by (simp add: valid_magazine_row_def valid_magazine_name_def)
  have "distinct (map m_id (magazines short_magazine_db))" by (simp add: ms)
  from top_publisher_selects [OF this] inv
  have "Magazine_top_publisher short_magazine_db = Inl ValueError"
    by (simp add: ms)
  with k ms ar show ?thesis by simp
qed

section \<open>Contributing authors\<close>

lemma inner_join_Cons:
  "inner_join (x # xs) ys on = map (Pair x) (filter (on x) ys) @ inner_join xs ys on"
  by (simp add: inner_join_def)

lemma inner_join_Nil: "inner_join [] ys on = []"
  by (simp add: inner_join_def)

lemma inner_join_where:
  "filter (\<lambda>(a, b). P b) (inner_join xs ys on) = inner_join xs ys (\<lambda>x y. on x y \<and> P y)"
  by (induction xs) (simp_all add: inner_join_Nil inner_join_Cons filter_map o_def)

lemma inner_join_other_key:
  "\<forall>x \<in> set xs. key x \<noteq> k \<Longrightarrow> filter (\<lambda>(a, b). key a = k) (inner_join xs ys on) = []"
  by (induction xs) (simp_all add: inner_join_Nil inner_join_Cons filter_map o_def)

lemma inner_join_group:
  "distinct (map key xs) \<Longrightarrow> x \<in> set xs \<Longrightarrow>
     filter (\<lambda>(a, b). key a = key x) (inner_join xs ys on) = map (Pair x) (filter (on x) ys)"
proof (induction xs)
  case Nil
  then show ?case by simp
next
  case (Cons y xs)
  show ?case
  proof (cases "x = y")
    case True
    have "filter (\<lambda>(a, b). key a = key x) (inner_join xs ys on) = []"
      using Cons.prems True by (intro inner_join_other_key) (auto simp: image_iff)
    with True show ?thesis by (simp add: inner_join_Cons filter_map o_def)
  next
    case False
    with Cons.prems have x: "x \<in> set xs" by simp
    with Cons.prems have "key y \<noteq> key x" by (auto simp: image_iff)
    with Cons x show ?thesis by (simp add: inner_join_Cons filter_map o_def)
  qed
qed

lemma inner_join_keys:
  "(\<lambda>(a, b). key a) ` set (inner_join xs ys on) = key ` {x \<in> set xs. filter (on x) ys \<noteq> []}"
proof (induction xs)
  case Nil
  then show ?case by (simp add: inner_join_Nil)
next
  case (Cons x xs)
  have "(\<lambda>(a, b). key a) ` set (map (Pair x) (filter (on x) ys))
      = (if filter (on x) ys = [] then {} else {key x})"
    by (cases "filter (on x) ys") (auto simp: image_iff)
  with Cons show ?case
    by (auto simp: inner_join_Cons image_Un)
qed

lemma contributing_rows:
  assumes "distinct (map a_id auths)"
  shows "set (concat (map (\<lambda>g. case g of [] \<Rightarrow> [] | (a, art) # _ \<Rightarrow> [a])
            (filter (\<lambda>g. 2 < length g)
               (group_by (\<lambda>(a, art). a_id a)
                  (filter (\<lambda>(a, art). r_magazine_id art = mid)
                     (inner_join auths arts (\<lambda>a art. a_id a = r_author_id art)))))))
         = {a \<in> set auths.
              2 < length (filter (\<lambda>art. a_id a = r_author_id art \<and> r_magazine_id art = mid) arts)}"
    (is "set (concat (map ?pick (filter ?having (group_by ?key ?selected)))) = ?R")
proof -
  let ?on = "\<lambda>a art. a_id a = r_author_id art \<and> r_magazine_id art = mid"
  let ?G = "\<lambda>a. map (Pair a) (filter (?on a) arts)"
  define sel where "sel = ?selected"
  have selected: "sel = inner_join auths arts ?on"
    unfolding sel_def by (rule inner_join_where)
  have keys: "?key ` set sel = a_id ` {a \<in> set auths. filter (?on a) arts \<noteq> []}"
    unfolding selected by (rule inner_join_keys)
  have group: "filter (\<lambda>r. ?key r = a_id a) sel = ?G a" if "a \<in> set auths" for a
  proof -
    have "(\<lambda>r. ?key r = a_id a) = (\<lambda>(a', art). a_id a' = a_id a)" by auto
    with inner_join_group [OF assms that, of arts ?on] show ?thesis
      by (simp only: selected)
  qed
  have "set (group_by ?key sel)
      = (\<lambda>k. filter (\<lambda>r. ?key r = k) sel) ` a_id ` {a \<in> set auths. filter (?on a) arts \<noteq> []}"
    by (simp only: set_group_by keys)
  also have "\<dots> = (\<lambda>a. filter (\<lambda>r. ?key r = a_id a) sel) ` {a \<in> set auths. filter (?on a) arts \<noteq> []}"
    by (simp only: image_image)
  also have "\<dots> = ?G ` {a \<in> set auths. filter (?on a) arts \<noteq> []}"
    by (rule image_cong) (simp_all only: group mem_Collect_eq)
  finally have groups: "set (group_by ?key sel) = ?G ` {a \<in> set auths. filter (?on a) arts \<noteq> []}" .
  have pick: "set (?pick (?G a)) = {a}" if "filter (?on a) arts \<noteq> []" for a
    using that by (cases "filter (?on a) arts") simp_all
  have "set (concat (map ?pick (filter ?having (group_by ?key sel))))
      = (\<Union>g \<in> {g \<in> set (group_by ?key sel). ?having g}. set (?pick g))"
    by simp
  also have "\<dots> = (\<Union>a \<in> {a \<in> set auths. filter (?on a) arts \<noteq> [] \<and> 2 < length (filter (?on a) arts)}.
      set (?pick (?G a)))"
    unfolding groups by auto
  also have "\<dots> = (\<Union>a \<in> {a \<in> set auths. filter (?on a) arts \<noteq> [] \<and> 2 < length (filter (?on a) arts)}. {a})"
    by (rule SUP_cong) (simp_all add: pick)
  also have "\<dots> = ?R" by auto
  finally show ?thesis unfolding sel_def .
qed

lemma author_of_inject: "author_of a = author_of b \<Longrightarrow> a = b"
  by (cases a, cases b) (simp add: author_of_def)

lemma contributing_authors_result:
  assumes "distinct (map a_id (authors d))"
    and "magazine_id self = Some mid" and "in_int64 mid"
  shows "(list_all valid_author_row (contributing d mid) \<longrightarrow>
            (\<exists>xs. Magazine_contributing_authors self d = Inr xs \<and>
                  set xs = author_of ` set (contributing d mid))) \<and>
         (\<not> list_all valid_author_row (contributing d mid) \<longrightarrow>
            Magazine_contributing_authors self d = Inl ValueError)"
proof -
  define rows where "rows =
    concat (map (\<lambda>g. case g of [] \<Rightarrow> [] | (a, art) # _ \<Rightarrow> [a])
      (filter (\<lambda>g. 2 < length g)
         (group_by (\<lambda>(a, art). a_id a)
            (filter (\<lambda>(a, art). r_magazine_id art = mid)
               (inner_join (authors d) (articles d) (\<lambda>a art. a_id a = r_author_id art))))))"
  have res: "Magazine_contributing_authors self d = instances Author_create_instance rows"
    using assms(2,3) by (simp add: Magazine_contributing_authors_def Let_def rows_def)
  have count: "length (filter (\<lambda>art. a_id a = r_author_id art \<and> r_magazine_id art = mid)
      (articles d)) = articles_in d (a_id a) mid" for a
    by (simp add: articles_in_def eq_commute)
  have "set rows = {a \<in> set (authors d). 2 < articles_in d (a_id a) mid}"
    unfolding rows_def by (simp only: contributing_rows [OF assms(1)] count)
  then have rows: "set rows = set (contributing d mid)"
    by (simp add: contributing_def)
  show ?thesis
  proof (intro conjI impI)
    assume "list_all valid_author_row (contributing d mid)"
    with rows have "\<And>a. a \<in> set rows \<Longrightarrow> Author_create_instance a = Inr (author_of a)"
      by (simp add: Author_create_instance_eq list_all_iff)
    then have "instances Author_create_instance rows = Inr (map author_of rows)"
      by (rule instances_Inr)
    with res rows show "\<exists>xs. Magazine_contributing_authors self d = Inr xs \<and>
        set xs = author_of ` set (contributing d mid)"
      by simp
  next
    assume "\<not> list_all valid_author_row (contributing d mid)"
    with rows obtain a where a: "a \<in> set rows" "\<not> valid_author_row a"
      by (auto simp: list_all_iff)
    then have "instances Author_create_instance rows = Inl ValueError"
      by (intro instances_Inl [of a]) (simp_all add: Author_create_instance_eq)
    with res show "Magazine_contributing_authors self d = Inl ValueError" by simp
  qed
qed

lemma contributing_after_article:
  assumes "distinct (map a_id (authors d))" and "a \<in> set (authors d)"
    and "articles_in d (a_id a) mid = 2"
    and "d' = d\<lparr>articles := articles d @
        [\<lparr>r_id = i, r_title = t, r_author_id = a_id a, r_magazine_id = mid\<rparr>],
        articles_seq := s\<rparr>"
  shows "set (contributing d' mid) = insert a (set (contributing d mid))"
proof -
  have same: "articles_in d' (a_id b) mid = articles_in d (a_id b) mid"
    if "b \<in> set (authors d)" "b \<noteq> a" for b
  proof -
    from assms(1,2) that have "a_id b \<noteq> a_id a"
      by (auto simp: distinct_map inj_on_def)
    with assms(4) show ?thesis by (simp add: articles_in_def)
  qed
  from assms(3,4) have three: "articles_in d' (a_id a) mid = 3"
    by (simp add: articles_in_def)
  from assms(4) have au: "authors d' = authors d" by simp
  have "b \<in> set (contributing d' mid) \<longleftrightarrow> b = a \<or> b \<in> set (contributing d mid)" for b
  proof (cases "b = a")
    case True
    with assms(2) three show ?thesis by (simp add: contributing_def au)
  next
    case False
    show ?thesis
    proof (cases "b \<in> set (authors d)")
      case True
      with False same [of b] show ?thesis by (simp add: contributing_def au)
    next
      case False
      then show ?thesis using assms(2) by (auto simp: contributing_def au)
    qed
  qed
  then show ?thesis by auto
qed

text \<open>
  Claim C5, as amended. For a persisted magazine, whose id is a 64-bit integer as every
  stored id is, \<open>contributing_authors()\<close> returns exactly the stored authors that have
  more than 2 articles in that magazine when the rows of these authors satisfy the
  constraints of an author, and raises ValueError when the row of one of them does not.
  Under that condition an author with 2 articles there, whose own row satisfies the
  constraints, is not in the result, and is in the result after \<open>add_article\<close> has added
  a third article of that author to the magazine.
\<close>

theorem contributing_authors_threshold:
  assumes "keys_ok d" and "magazine_id self = Some mid" and "in_int64 mid"
  shows "(list_all valid_author_row (contributing d mid) \<longrightarrow>
            (\<exists>xs. Magazine_contributing_authors self d = Inr xs \<and>
                  set xs = author_of ` set (contributing d mid))) \<and>
         (\<not> list_all valid_author_row (contributing d mid) \<longrightarrow>
            Magazine_contributing_authors self d = Inl ValueError) \<and>
         (list_all valid_author_row (contributing d mid) \<and>
          a \<in> set (authors d) \<and> valid_author_row a \<and> articles_in d (a_id a) mid = 2 \<and>
          valid_title t \<and> utf8_ok t \<and> room (articles_seq d) (map r_id (articles d)) \<longrightarrow>
            (\<exists>xs ys.
               Magazine_contributing_authors self d = Inr xs \<and> author_of a \<notin> set xs \<and>
               Magazine_contributing_authors self
                 (snd (Author_add_article (author_of a) (MagazineObj self) (PyStr t) d)) = Inr ys \<and>
               author_of a \<in> set ys))"
proof (intro conjI)
  from assms(1) have dist: "distinct (map a_id (authors d))" by (simp add: keys_ok_def)
  note before = contributing_authors_result [OF dist assms(2,3)]
  from before show "list_all valid_author_row (contributing d mid) \<longrightarrow>
      (\<exists>xs. Magazine_contributing_authors self d = Inr xs \<and>
            set xs = author_of ` set (contributing d mid))"
    by blast
  from before show "\<not> list_all valid_author_row (contributing d mid) \<longrightarrow>
      Magazine_contributing_authors self d = Inl ValueError"
    by blast
  show "list_all valid_author_row (contributing d mid) \<and>
      a \<in> set (authors d) \<and> valid_author_row a \<and> articles_in d (a_id a) mid = 2 \<and>
      valid_title t \<and> utf8_ok t \<and> room (articles_seq d) (map r_id (articles d)) \<longrightarrow>
        (\<exists>xs ys.
           Magazine_contributing_authors self d = Inr xs \<and> author_of a \<notin> set xs \<and>
           Magazine_contributing_authors self
             (snd (Author_add_article (author_of a) (MagazineObj self) (PyStr t) d)) = Inr ys \<and>
           author_of a \<in> set ys)"
  proof
    assume h: "list_all valid_author_row (contributing d mid) \<and>
      a \<in> set (authors d) \<and> valid_author_row a \<and> articles_in d (a_id a) mid = 2 \<and>
      valid_title t \<and> utf8_ok t \<and> room (articles_seq d) (map r_id (articles d))"
    with before obtain xs where xs: "Magazine_contributing_authors self d = Inr xs"
        "set xs = author_of ` set (contributing d mid)"
      by blast
    from h have "a \<notin> set (contributing d mid)" by (simp add: contributing_def)
    with xs(2) have out: "author_of a \<notin> set xs"
      by (auto dest: author_of_inject)
    from assms(1) have "list_all in_int64 (map r_id (articles d))" "seq_ok (articles_seq d)"
      by (simp_all add: keys_ok_def list_all_iff)
    with h obtain i where i: "new_rowid (articles_seq d) (map r_id (articles d)) = Inr i"
      using new_rowid_fresh [of "articles_seq d" "map r_id (articles d)"] by blast
    from assms(1) h have ra: "in_int64 (a_id a)" by (simp add: keys_ok_author)
    define d' where "d' = snd (Author_add_article (author_of a) (MagazineObj self) (PyStr t) d)"
    have "Author_add_article (author_of a) (MagazineObj self) (PyStr t) d =
        Article_create (PyStr t) (Some (a_id a)) (Some mid) d"
      using assms(2) by (simp add: author_of_def)
    with h ra assms(3) i have d': "d' = d\<lparr>articles := articles d @
          [\<lparr>r_id = i, r_title = t, r_author_id = a_id a, r_magazine_id = mid\<rparr>],
          articles_seq := next_seq (articles_seq d) i\<rparr>"
      unfolding d'_def by (simp add: Article_create_valid)
    from h have "set (contributing d' mid) = insert a (set (contributing d mid))"
      by (intro contributing_after_article [OF dist _ _ d']) simp_all
    with h have cont: "a \<in> set (contributing d' mid)"
        "list_all valid_author_row (contributing d' mid)"
      by (simp_all add: list_all_iff)
    from d' dist have "distinct (map a_id (authors d'))" by simp
    from contributing_authors_result [OF this assms(2,3)] cont(2)
    obtain ys where ys: "Magazine_contributing_authors self d' = Inr ys"
        "set ys = author_of ` set (contributing d' mid)"
      by blast
    from cont(1) ys(2) have "author_of a \<in> set ys" by simp
    with xs(1) out ys(1) show "\<exists>xs ys.
        Magazine_contributing_authors self d = Inr xs \<and> author_of a \<notin> set xs \<and>
        Magazine_contributing_authors self
          (snd (Author_add_article (author_of a) (MagazineObj self) (PyStr t) d)) = Inr ys \<and>
        author_of a \<in> set ys"
      unfolding d'_def by blast
  qed
qed

lemma nameless_author_db_eq:
  "nameless_author_db =
     \<lparr>authors = [\<lparr>a_id = 1, a_name = str ''''\<rparr>],
      magazines = [tech_today],
      articles =
        [\<lparr>r_id = 1, r_title = str ''The Future of AI'', r_author_id = 1, r_magazine_id = 1\<rparr>,
         \<lparr>r_id = 2, r_title = str ''AI Ethics'', r_author_id = 1, r_magazine_id = 1\<rparr>,
         \<lparr>r_id = 3, r_title = str ''Cybersecurity Basics'', r_author_id = 1,
           r_magazine_id = 1\<rparr>],
      authors_seq = Some 1, magazines_seq = Some 1, articles_seq = Some 3\<rparr>"
proof -
  define d1 where "d1 = \<lparr>authors = [\<lparr>a_id = 1, a_name = str ''''\<rparr>], magazines = [],
      articles = [], authors_seq = Some 1, magazines_seq = Some 0, articles_seq = Some 0\<rparr>"
  define d2 where "d2 = d1\<lparr>magazines := [tech_today], magazines_seq := Some 1\<rparr>"
  define d3 where "d3 = d2\<lparr>articles := [\<lparr>r_id = 1, r_title = str ''The Future of AI'',
      r_author_id = 1, r_magazine_id = 1\<rparr>], articles_seq := Some 1\<rparr>"
  define d4 where "d4 = d3\<lparr>articles := articles d3 @ [\<lparr>r_id = 2, r_title = str ''AI Ethics'',
      r_author_id = 1, r_magazine_id = 1\<rparr>], articles_seq := Some 2\<rparr>"
  define d5 where "d5 = d4\<lparr>articles := articles d4 @ [\<lparr>r_id = 3,
      r_title = str ''Cybersecurity Basics'', r_author_id = 1, r_magazine_id = 1\<rparr>],
      articles_seq := Some 3\<rparr>"
  have s1: "snd (Author_create (PyStr (str '''')) empty_db) = d1"
    by (simp add: d1_def Author_create_def empty_db_def get_connection_def insert_author_def
        new_rowid_def room_def next_seq_def commit_def rollback_def close_connection_def)
  have s2: "snd (Magazine_create (PyStr (str ''Tech Today'')) (PyStr (str ''Technology'')) d1) = d2"
    by (simp add: d2_def d1_def tech_today_def Magazine_create_def get_connection_def
        insert_magazine_def new_rowid_def room_def next_seq_def commit_def rollback_def
        close_connection_def)
  have s3: "snd (Article_create (PyStr (str ''The Future of AI'')) (Some 1) (Some 1) d2) = d3"
    by (simp add: d3_def d2_def d1_def tech_today_def Article_create_def get_connection_def
        insert_article_def new_rowid_def room_def next_seq_def commit_def rollback_def
        close_connection_def)
  have s4: "snd (Article_create (PyStr (str ''AI Ethics'')) (Some 1) (Some 1) d3) = d4"
    by (simp add: d4_def d3_def d2_def d1_def tech_today_def Article_create_def
        get_connection_def insert_article_def new_rowid_def room_def next_seq_def commit_def
        rollback_def close_connection_def)
  have s5: "snd (Article_create (PyStr (str ''Cybersecurity Basics'')) (Some 1) (Some 1) d4) = d5"
    by (simp add: d5_def d4_def d3_def d2_def d1_def tech_today_def Article_create_def
        get_connection_def insert_article_def new_rowid_def room_def next_seq_def commit_def
        rollback_def close_connection_def)
  have "nameless_author_db = d5"
    unfolding nameless_author_db_def Let_def s1 s2 s3 s4 s5 ..
  then show ?thesis
    by (simp add: d5_def d4_def d3_def d2_def d1_def)
qed

lemma keys_ok_nameless_author_db: "keys_ok nameless_author_db"
  by (simp add: nameless_author_db_eq keys_ok_def seq_ok_def in_int64_def tech_today_def)

lemma contributing_nameless_author_db:
  "contributing nameless_author_db 1 = [\<lparr>a_id = 1, a_name = str ''''\<rparr>]"
  by (simp add: nameless_author_db_eq contributing_def articles_in_def)

theorem contributing_authors_threshold_witness:
  "keys_ok sample_db \<and> magazine_id (magazine_of tech_today) = Some 1 \<and> in_int64 1 \<and>
   list_all valid_author_row (contributing sample_db 1) \<and>
   Magazine_contributing_authors (magazine_of tech_today) sample_db = Inr [] \<and>
   john \<in> set (authors sample_db) \<and> valid_author_row john \<and>
   articles_in sample_db (a_id john) 1 = 2 \<and>
   valid_title (str ''Advanced AI Concepts'') \<and> utf8_ok (str ''Advanced AI Concepts'') \<and>
   room (articles_seq sample_db) (map r_id (articles sample_db)) \<and>
   (\<exists>ys. Magazine_contributing_authors (magazine_of tech_today)
           (snd (Author_add_article (author_of john) (MagazineObj (magazine_of tech_today))
                   (PyStr (str ''Advanced AI Concepts'')) sample_db)) = Inr ys \<and>
         author_of john \<in> set ys) \<and>
   keys_ok nameless_author_db \<and>
   \<not> list_all valid_author_row (contributing nameless_author_db 1) \<and>
   Magazine_contributing_authors (magazine_of tech_today) nameless_author_db = Inl ValueError"
proof -
  have m: "magazine_id (magazine_of tech_today) = Some 1"
    by (simp add: magazine_of_def tech_today_def)
  have r: "in_int64 1" by simp
  have au: "authors sample_db = [john, jane]"
    by (simp add: sample_db_def)
  have i: "a_id john = 1" "a_id jane = 2" by (simp_all add: john_def jane_def)
  have c1: "articles_in sample_db 1 1 = 2"
    by (simp add: articles_in_def sample_db_def)
  have c2: "articles_in sample_db 2 1 = 0"
    by (simp add: articles_in_def sample_db_def)
  have none: "contributing sample_db 1 = []"
    by (simp add: contributing_def au i c1 c2)
  have la: "list_all valid_author_row (contributing sample_db 1)"
    by (simp add: none)
  have v: "valid_author_row john"
    by (simp add: john_def valid_author_row_def valid_author_name_def)
  have t: "valid_title (str ''Advanced AI Concepts'') \<and> utf8_ok (str ''Advanced AI Concepts'')"
    by (simp add: valid_title_def)
  have ro: "room (articles_seq sample_db) (map r_id (articles sample_db))"
    by (simp add: room_def sample_db_def)
  have mem: "john \<in> set (authors sample_db)" by (simp add: au)
  have two: "articles_in sample_db (a_id john) 1 = 2" by (simp add: i c1)
  note inst = contributing_authors_threshold [OF keys_ok_sample_db m r, of john
      "str ''Advanced AI Concepts''"]
  from inst la obtain xs where xs:
      "Magazine_contributing_authors (magazine_of tech_today) sample_db = Inr xs"
      "set xs = author_of ` set (contributing sample_db 1)"
    by blast
  from xs(2) have "xs = []" by (simp add: none)
  with xs(1) have r1: "Magazine_contributing_authors (magazine_of tech_today) sample_db = Inr []"
    by simp
  from inst la mem v two t ro
  have r2: "\<exists>ys. Magazine_contributing_authors (magazine_of tech_today)
           (snd (Author_add_article (author_of john) (MagazineObj (magazine_of tech_today))
                   (PyStr (str ''Advanced AI Concepts'')) sample_db)) = Inr ys \<and>
         author_of john \<in> set ys"
    by blast
  have bad: "\<not> list_all valid_author_row (contributing nameless_author_db 1)"
    by (simp add: contributing_nameless_author_db valid_author_row_def valid_author_name_def)
  with contributing_authors_threshold [OF keys_ok_nameless_author_db m r]
  have r3: "Magazine_contributing_authors (magazine_of tech_today) nameless_author_db
      = Inl ValueError"
    by blast
  from keys_ok_sample_db m r la r1 mem v two t ro r2 keys_ok_nameless_author_db bad r3
  show ?thesis by blast
qed

text \<open>
  The claim as stated fails on a database that the layer itself produces:
  \<open>Author.create("")\<close> stores an author without a name, and with three articles of that
  author in the magazine \<open>Tech Today\<close>, which \<open>find_by_id\<close> returns,
  \<open>contributing_authors()\<close> raises ValueError where the claim has it return that author.
\<close>

theorem contributing_authors_invalid_row_counterexample:
  "keys_ok nameless_author_db \<and>
   Magazine_find_by_id 1 nameless_author_db = Inr (Some (magazine_of tech_today)) \<and>
   articles_in nameless_author_db 1 1 = 3 \<and>
   Magazine_contributing_authors (magazine_of tech_today) nameless_author_db = Inl ValueError"
proof -
  have f: "Magazine_find_by_id 1 nameless_author_db = Inr (Some (magazine_of tech_today))"
    by (simp add: nameless_author_db_eq Magazine_find_by_id_def get_connection_def
        Magazine_create_instance_def magazine_of_def tech_today_def)
  have c: "articles_in nameless_author_db 1 1 = 3"
    by (simp add: nameless_author_db_eq articles_in_def)
  have m: "magazine_id (magazine_of tech_today) = Some 1"
    by (simp add: magazine_of_def tech_today_def)
  have dist: "distinct (map a_id (authors nameless_author_db))"
    by (simp add: nameless_author_db_eq)
  have bad: "\<not> list_all valid_author_row (contributing nameless_author_db 1)"
    by (simp add: contributing_nameless_author_db valid_author_row_def valid_author_name_def)
  have r: "in_int64 1" by simp
  from contributing_authors_result [OF dist m r] bad
  have "Magazine_contributing_authors (magazine_of tech_today) nameless_author_db
      = Inl ValueError"
    by blast
  with keys_ok_nameless_author_db f c show ?thesis by blast
qed

end
